theory Spec2Isabelle
  imports Complex_Main
begin

section \<open>Data model\<close>

text \<open>
  The backend is a set of HTTP handlers over one PostgreSQL database. The model keeps
  the database as a record of tables; a table is the list of its rows in insertion
  order. Every \<open>BIGSERIAL\<close> key has its sequence in the state: the next value it hands
  out. A sequence is not transactional, so it also advances when the statement that
  drew from it fails or is rolled back.

  Conventions of the model:
  \<^item> a column or request field that may be absent (\<open>description?: string\<close>, a
    nullable column) is an \<open>option\<close>;
  \<^item> a request's \<open>number\<close> that feeds an \<open>INTEGER\<close> or \<open>BIGINT\<close> column is an \<open>int\<close>;
    a statement that is given a value outside the 32 bits of an \<open>INTEGER\<close> column fails
    with SQLSTATE 22003, one that is given a string too long for its \<open>VARCHAR(n)\<close>
    column fails with SQLSTATE 22001 or stores the string cut to \<open>n\<close> characters, and
    one that is given a string with the character of code 0 fails with SQLSTATE 22021
    (section \<open>Column types\<close>); keys are \<open>BIGINT\<close> values handed out by the sequences;
  \<^item> a \<open>DOUBLE PRECISION\<close> value (a price, a cost) is the \<open>real\<close> number it stands
    for; it is stored and returned as it is. The model does no arithmetic on such
    values: the sums over them, in the inventory report, are the database's and a
    parameter of the model;
  \<^item> \<open>NOW()\<close> is a parameter of the handler, read once per call;
  \<^item> record fields carry a prefix naming their table or request
    (\<open>p_\<close> products, \<open>i_\<close> inventory, \<open>t_\<close> inventory\_transactions, \<open>a_\<close> assets,
    \<open>m_\<close> asset\_maintenance, \<open>s_\<close> staff), since several tables share column names.
\<close>

type_synonym timestamp = int

text \<open>\<open>types.ts\<close>: \<open>Product\<close>, one row of table \<open>products\<close>.\<close>

record Product =
  p_id :: int
  p_name :: string
  p_description :: "string option"
  p_sku :: string
  p_category :: "string option"
  p_unitOfMeasure :: string
  p_unitPrice :: real
  p_reorderLevel :: int
  p_maxStockLevel :: "int option"
  p_createdAt :: timestamp
  p_updatedAt :: timestamp

text \<open>\<open>types.ts\<close>: \<open>Inventory\<close>, one row of table \<open>inventory\<close>.\<close>

record Inventory =
  i_id :: int
  i_productId :: int
  i_quantityOnHand :: int
  i_quantityReserved :: int
  i_quantityAvailable :: int
  i_lastUpdated :: timestamp

datatype TransactionType = RECEIVE | ISSUE | ADJUSTMENT

text \<open>One row of table \<open>inventory_transactions\<close> (with the \<open>staff_id\<close> column of
  the second migration).\<close>

record InventoryTransaction =
  t_id :: int
  t_productId :: int
  t_transactionType :: TransactionType
  t_quantity :: int
  t_referenceNumber :: "string option"
  t_notes :: "string option"
  t_createdAt :: timestamp
  t_createdBy :: "string option"
  t_staffId :: "int option"

datatype AssetStatus = ACTIVE | INACTIVE | MAINTENANCE | DISPOSED

text \<open>\<open>types.ts\<close>: \<open>Asset\<close>, one row of table \<open>assets\<close>.\<close>

record Asset =
  a_id :: int
  a_assetTag :: string
  a_name :: string
  a_description :: "string option"
  a_category :: "string option"
  a_brand :: "string option"
  a_model :: "string option"
  a_serialNumber :: "string option"
  a_purchaseDate :: "timestamp option"
  a_purchasePrice :: "real option"
  a_currentValue :: "real option"
  a_location :: "string option"
  a_status :: AssetStatus
  a_assignedTo :: "string option"
  a_warrantyExpiry :: "timestamp option"
  a_createdAt :: timestamp
  a_updatedAt :: timestamp

text \<open>\<open>types.ts\<close>: \<open>AssetMaintenance\<close>, one row of table \<open>asset_maintenance\<close>.\<close>

record AssetMaintenance =
  m_id :: int
  m_assetId :: int
  m_maintenanceType :: string
  m_description :: "string option"
  m_cost :: "real option"
  m_performedDate :: timestamp
  m_performedBy :: "string option"
  m_nextDueDate :: "timestamp option"
  m_createdAt :: timestamp

datatype StaffStatus = STAFF_ACTIVE | STAFF_INACTIVE | STAFF_TERMINATED

text \<open>One row of table \<open>staff\<close> (second migration), as the staff handlers return it.\<close>

record Staff =
  s_id :: int
  s_employeeId :: string
  s_firstName :: string
  s_lastName :: string
  s_email :: "string option"
  s_phone :: "string option"
  s_department :: "string option"
  s_position :: "string option"
  s_hireDate :: "timestamp option"
  s_status :: StaffStatus
  s_createdAt :: timestamp
  s_updatedAt :: timestamp

text \<open>The database: the six tables of the two migrations and their id sequences.\<close>

record db =
  products :: "Product list"
  products_id_seq :: int
  inventory :: "Inventory list"
  inventory_id_seq :: int
  inventory_transactions :: "InventoryTransaction list"
  inventory_transactions_id_seq :: int
  assets :: "Asset list"
  assets_id_seq :: int
  asset_maintenance :: "AssetMaintenance list"
  asset_maintenance_id_seq :: int
  staff :: "Staff list"
  staff_id_seq :: int

text \<open>The database right after the migrations: empty tables, sequences at 1.\<close>

definition empty_db :: db where
  "empty_db = \<lparr>products = [], products_id_seq = 1,
               inventory = [], inventory_id_seq = 1,
               inventory_transactions = [], inventory_transactions_id_seq = 1,
               assets = [], assets_id_seq = 1,
               asset_maintenance = [], asset_maintenance_id_seq = 1,
               staff = [], staff_id_seq = 1\<rparr>"

section \<open>Errors\<close>

text \<open>
  A handler throws either an \<open>APIError\<close> of the framework, built by
  \<open>APIError.notFound\<close>, \<open>APIError.alreadyExists\<close>, \<open>APIError.internal\<close> or
  \<open>APIError.invalidArgument\<close>, or lets an error of the database driver through, which
  carries the SQLSTATE of the failed statement (\<open>23505\<close> unique violation, \<open>23503\<close>
  foreign-key violation). Both have a \<open>code\<close> property, which the handlers' \<open>catch\<close>
  blocks compare with \<open>'23505'\<close>.
\<close>

datatype ErrCode = NotFound | AlreadyExists | Internal | InvalidArgument

datatype thrown = APIError ErrCode string | PgError string

fun code :: "thrown \<Rightarrow> string" where
  "code (APIError NotFound _) = ''not_found''"
| "code (APIError AlreadyExists _) = ''already_exists''"
| "code (APIError Internal _) = ''internal''"
| "code (APIError InvalidArgument _) = ''invalid_argument''"
| "code (PgError sqlstate) = sqlstate"

text \<open>The \<open>catch\<close> block shared by the create and update handlers:
  \<^verbatim>\<open>if (error.code === '23505') throw APIError.alreadyExists(conflict);
  throw APIError.internal(failure, error);\<close>\<close>

definition catch_unique :: "string \<Rightarrow> string \<Rightarrow> thrown \<Rightarrow> thrown" where
  "catch_unique conflict failure error =
     (if code error = ''23505'' then APIError AlreadyExists conflict
      else APIError Internal failure)"

section \<open>Column types\<close>

text \<open>\<open>INTEGER\<close>: a value the column can hold. A statement given another value fails with
  SQLSTATE 22003.\<close>

definition int4 :: "int \<Rightarrow> bool" where
  "int4 n = (- 2147483648 \<le> n \<and> n \<le> 2147483647)"

definition int4_opt :: "int option \<Rightarrow> bool" where
  "int4_opt v = (case v of None \<Rightarrow> True | Some n \<Rightarrow> int4 n)"

text \<open>
  The first error ends the evaluation of a statement's values. The values are checked
  when the parameters of the statement are bound and when it is planned with them, before
  a row is built and a key is drawn from a sequence. (A database that plans the statement
  without its values checks the length of a string only while it builds the row, when the
  key is drawn already; the state it leaves after that error differs in the sequence
  alone.)
\<close>

definition and_then :: "thrown + 'a \<Rightarrow> ('a \<Rightarrow> thrown + 'b) \<Rightarrow> thrown + 'b" where
  "and_then r f = (case r of Inl error \<Rightarrow> Inl error | Inr x \<Rightarrow> f x)"

text \<open>A string value of the database (\<open>TEXT\<close>, \<open>VARCHAR\<close>): a string that holds the
  character with code 0 is refused (SQLSTATE 22021).\<close>

definition pg_text :: "string \<Rightarrow> thrown + string" where
  "pg_text s = (if CHR 0x00 \<in> set s then Inl (PgError ''22021'') else Inr s)"

definition pg_text_opt :: "string option \<Rightarrow> thrown + string option" where
  "pg_text_opt v =
     (case v of
        None \<Rightarrow> Inr None
      | Some s \<Rightarrow> (case pg_text s of Inl error \<Rightarrow> Inl error | Inr s' \<Rightarrow> Inr (Some s')))"

text \<open>
  \<open>VARCHAR(n)\<close>: what the column stores when it is assigned the string \<open>s\<close>. A string of
  more than \<open>n\<close> characters is an error (SQLSTATE 22001), unless the characters beyond
  the \<open>n\<close>-th are all spaces: then the string is stored cut to \<open>n\<close> characters.
\<close>

definition varchar :: "nat \<Rightarrow> string \<Rightarrow> thrown + string" where
  "varchar n s =
     and_then (pg_text s) (\<lambda>s.
       if length s \<le> n then Inr s
       else if list_all (\<lambda>c. c = CHR '' '') (drop n s) then Inr (take n s)
       else Inl (PgError ''22001''))"

definition varchar_opt :: "nat \<Rightarrow> string option \<Rightarrow> thrown + string option" where
  "varchar_opt n v =
     (case v of
        None \<Rightarrow> Inr None
      | Some s \<Rightarrow> (case varchar n s of Inl error \<Rightarrow> Inl error | Inr s' \<Rightarrow> Inr (Some s')))"

section \<open>Products (\<open>products.ts\<close>)\<close>

record CreateProductRequest =
  cp_name :: string
  cp_description :: "string option"
  cp_sku :: string
  cp_category :: "string option"
  cp_unitOfMeasure :: string
  cp_unitPrice :: real
  cp_reorderLevel :: int
  cp_maxStockLevel :: "int option"

record UpdateProductRequest =
  up_id :: int
  up_name :: string
  up_description :: "string option"
  up_sku :: string
  up_category :: "string option"
  up_unitOfMeasure :: string
  up_unitPrice :: real
  up_reorderLevel :: int
  up_maxStockLevel :: "int option"

text \<open>
  The columns of table \<open>products\<close> that restrict their values: \<open>name VARCHAR(255)\<close>,
  \<open>sku VARCHAR(100)\<close>, \<open>category VARCHAR(100)\<close>, \<open>unit_of_measure VARCHAR(50)\<close>,
  \<open>reorder_level INTEGER\<close>, \<open>max_stock_level INTEGER\<close>. The result is the four strings
  as the columns store them. The column \<open>description TEXT\<close> takes every string value.
\<close>

definition product_columns ::
  "string \<Rightarrow> string \<Rightarrow> string option \<Rightarrow> string \<Rightarrow> int \<Rightarrow> int option \<Rightarrow>
   thrown + (string \<times> string \<times> string option \<times> string)" where
  "product_columns name sku category unit reorder_level max_stock_level =
     and_then (varchar 255 name) (\<lambda>name'.
     and_then (varchar 100 sku) (\<lambda>sku'.
     and_then (varchar_opt 100 category) (\<lambda>category'.
     and_then (varchar 50 unit) (\<lambda>unit'.
       if int4 reorder_level \<and> int4_opt max_stock_level
       then Inr (name', sku', category', unit')
       else Inl (PgError ''22003'')))))"

text \<open>The values of a request as the \<open>INSERT\<close> stores them.\<close>

definition assign_product :: "CreateProductRequest \<Rightarrow> thrown + CreateProductRequest" where
  "assign_product req =
     and_then (pg_text_opt (cp_description req)) (\<lambda>description.
     and_then (product_columns (cp_name req) (cp_sku req) (cp_category req)
                 (cp_unitOfMeasure req) (cp_reorderLevel req) (cp_maxStockLevel req))
       (\<lambda>(name, sku, category, unit).
          Inr (req\<lparr>cp_name := name, cp_description := description, cp_sku := sku,
                   cp_category := category, cp_unitOfMeasure := unit\<rparr>)))"

text \<open>
  \<^verbatim>\<open>INSERT INTO products (name, ..., max_stock_level) VALUES (...) RETURNING ...\<close>
  A value that its column cannot take ends the statement before a key is drawn.
  Otherwise the id is drawn from the sequence; \<open>created_at\<close> and \<open>updated_at\<close> default
  to \<open>NOW()\<close>. The primary key on \<open>id\<close> and the \<open>UNIQUE\<close> constraint on \<open>sku\<close> reject
  the row with SQLSTATE 23505.
\<close>

definition insert_product ::
  "timestamp \<Rightarrow> CreateProductRequest \<Rightarrow> db \<Rightarrow> (thrown + Product option) \<times> db" where
  "insert_product now req d =
     (case assign_product req of
        Inl error \<Rightarrow> (Inl error, d)
      | Inr stored \<Rightarrow>
          (let new_id = products_id_seq d;
               d1 = d\<lparr>products_id_seq := new_id + 1\<rparr>;
               row = \<lparr>p_id = new_id, p_name = cp_name stored,
                      p_description = cp_description stored, p_sku = cp_sku stored,
                      p_category = cp_category stored,
                      p_unitOfMeasure = cp_unitOfMeasure stored,
                      p_unitPrice = cp_unitPrice stored,
                      p_reorderLevel = cp_reorderLevel stored,
                      p_maxStockLevel = cp_maxStockLevel stored,
                      p_createdAt = now, p_updatedAt = now\<rparr>
           in if \<exists>p \<in> set (products d). p_id p = new_id \<or> p_sku p = cp_sku stored
              then (Inl (PgError ''23505''), d1)
              else (Inr (Some row), d1\<lparr>products := products d @ [row]\<rparr>)))"

text \<open>The generated column of table \<open>inventory\<close>:
  \<^verbatim>\<open>quantity_available INTEGER GENERATED ALWAYS AS (quantity_on_hand - quantity_reserved) STORED\<close>
  The database computes it whenever a row is written.\<close>

definition generated :: "Inventory \<Rightarrow> Inventory" where
  "generated r = r\<lparr>i_quantityAvailable := i_quantityOnHand r - i_quantityReserved r\<rparr>"

text \<open>
  \<^verbatim>\<open>INSERT INTO inventory (product_id, quantity_on_hand, quantity_reserved)
  VALUES (${product.id}, 0, 0)\<close>
  \<open>product_id\<close> references \<open>products(id)\<close> (SQLSTATE 23503 when no such product).
\<close>

definition insert_inventory :: "timestamp \<Rightarrow> int \<Rightarrow> db \<Rightarrow> (thrown + unit) \<times> db" where
  "insert_inventory now product_id d =
     (let new_id = inventory_id_seq d;
          d1 = d\<lparr>inventory_id_seq := new_id + 1\<rparr>;
          row = generated \<lparr>i_id = new_id, i_productId = product_id, i_quantityOnHand = 0,
                           i_quantityReserved = 0, i_quantityAvailable = 0,
                           i_lastUpdated = now\<rparr>
      in if \<exists>i \<in> set (inventory d). i_id i = new_id then (Inl (PgError ''23505''), d1)
         else if \<not> (\<exists>p \<in> set (products d). p_id p = product_id)
         then (Inl (PgError ''23503''), d1)
         else (Inr (), d1\<lparr>inventory := inventory d @ [row]\<rparr>))"

text \<open>\<open>createProduct\<close>: both statements run inside the \<open>try\<close>, outside any
  transaction, so the \<open>catch\<close> also receives the handler's own \<open>APIError\<close>.\<close>

definition createProduct ::
  "timestamp \<Rightarrow> CreateProductRequest \<Rightarrow> db \<Rightarrow> (thrown + Product) \<times> db" where
  "createProduct now req d =
     (let handler = catch_unique ''Product with this SKU already exists''
                                 ''Failed to create product''
      in case insert_product now req d of
           (Inl error, d1) \<Rightarrow> (Inl (handler error), d1)
         | (Inr None, d1) \<Rightarrow>
             (Inl (handler (APIError Internal ''Failed to create product'')), d1)
         | (Inr (Some product), d1) \<Rightarrow>
             (case insert_inventory now (p_id product) d1 of
                (Inl error, d2) \<Rightarrow> (Inl (handler error), d2)
              | (Inr _, d2) \<Rightarrow> (Inr product, d2)))"

text \<open>\<open>getProduct\<close>: \<^verbatim>\<open>SELECT ... FROM products WHERE id = ${id}\<close>; \<open>queryRow\<close>
  gives the first row or null.\<close>

definition getProduct :: "int \<Rightarrow> db \<Rightarrow> thrown + Product" where
  "getProduct ident d =
     (case find (\<lambda>p. p_id p = ident) (products d) of
        None \<Rightarrow> Inl (APIError NotFound ''Product not found'')
      | Some product \<Rightarrow> Inr product)"

text \<open>
  \<^verbatim>\<open>UPDATE products SET name = ..., max_stock_level = ..., updated_at = NOW()
  WHERE id = ${req.id} RETURNING ...\<close>
  The statement fails with SQLSTATE 23505 when a row it changes would share its \<open>sku\<close>
  with another row.
\<close>

definition set_product :: "timestamp \<Rightarrow> UpdateProductRequest \<Rightarrow> Product \<Rightarrow> Product" where
  "set_product now req p =
     p\<lparr>p_name := up_name req, p_description := up_description req, p_sku := up_sku req,
       p_category := up_category req, p_unitOfMeasure := up_unitOfMeasure req,
       p_unitPrice := up_unitPrice req, p_reorderLevel := up_reorderLevel req,
       p_maxStockLevel := up_maxStockLevel req, p_updatedAt := now\<rparr>"

text \<open>The values of a request as the \<open>UPDATE\<close> stores them.\<close>

definition assign_product_update :: "UpdateProductRequest \<Rightarrow> thrown + UpdateProductRequest"
  where
  "assign_product_update req =
     and_then (pg_text_opt (up_description req)) (\<lambda>description.
     and_then (product_columns (up_name req) (up_sku req) (up_category req)
                 (up_unitOfMeasure req) (up_reorderLevel req) (up_maxStockLevel req))
       (\<lambda>(name, sku, category, unit).
          Inr (req\<lparr>up_name := name, up_description := description, up_sku := sku,
                   up_category := category, up_unitOfMeasure := unit\<rparr>)))"

definition update_product ::
  "timestamp \<Rightarrow> UpdateProductRequest \<Rightarrow> db \<Rightarrow> (thrown + Product option) \<times> db" where
  "update_product now req d =
     (case assign_product_update req of
        Inl error \<Rightarrow> (Inl error, d)
      | Inr stored \<Rightarrow>
          (let hit = (\<lambda>p. p_id p = up_id req)
           in if (\<exists>p \<in> set (products d). hit p) \<and>
                 (\<exists>q \<in> set (products d). \<not> hit q \<and> p_sku q = up_sku stored)
              then (Inl (PgError ''23505''), d)
              else (Inr (map_option (set_product now stored) (find hit (products d))),
                    d\<lparr>products := map (\<lambda>p. if hit p then set_product now stored p else p)
                                       (products d)\<rparr>)))"

text \<open>\<open>updateProduct\<close>: the \<open>throw APIError.notFound\<close> stands inside the \<open>try\<close>, so
  the \<open>catch\<close> below it receives that error as well.\<close>

definition updateProduct ::
  "timestamp \<Rightarrow> UpdateProductRequest \<Rightarrow> db \<Rightarrow> (thrown + Product) \<times> db" where
  "updateProduct now req d =
     (let handler = catch_unique ''Product with this SKU already exists''
                                 ''Failed to update product''
      in case update_product now req d of
           (Inl error, d1) \<Rightarrow> (Inl (handler error), d1)
         | (Inr None, d1) \<Rightarrow> (Inl (handler (APIError NotFound ''Product not found'')), d1)
         | (Inr (Some product), d1) \<Rightarrow> (Inr product, d1))"

text \<open>
  \<^verbatim>\<open>DELETE FROM products WHERE id = ${id} RETURNING id\<close>
  \<open>inventory.product_id\<close> and \<open>inventory_transactions.product_id\<close> reference the
  product \<open>ON DELETE CASCADE\<close>: their rows go with it.
\<close>

definition delete_product :: "int \<Rightarrow> db \<Rightarrow> int option \<times> db" where
  "delete_product ident d =
     (case find (\<lambda>p. p_id p = ident) (products d) of
        None \<Rightarrow> (None, d)
      | Some deleted \<Rightarrow>
          (Some (p_id deleted),
           d\<lparr>products := filter (\<lambda>p. p_id p \<noteq> ident) (products d),
             inventory := filter (\<lambda>i. i_productId i \<noteq> ident) (inventory d),
             inventory_transactions :=
               filter (\<lambda>t. t_productId t \<noteq> ident) (inventory_transactions d)\<rparr>))"

definition deleteProduct :: "int \<Rightarrow> db \<Rightarrow> (thrown + unit) \<times> db" where
  "deleteProduct ident d =
     (case delete_product ident d of
        (None, d1) \<Rightarrow> (Inl (APIError NotFound ''Product not found''), d1)
      | (Some _, d1) \<Rightarrow> (Inr (), d1))"

section \<open>Inventory transactions (\<open>products.ts\<close>, second part)\<close>

record CreateTransactionRequest =
  ct_productId :: int
  ct_transactionType :: TransactionType
  ct_quantity :: int
  ct_referenceNumber :: "string option"
  ct_notes :: "string option"
  ct_createdBy :: "string option"
  ct_staffId :: "int option"

text \<open>The test \<^verbatim>\<open>if (req.staffId)\<close> on an optional number: \<open>undefined\<close> and \<open>0\<close> are
  falsy.\<close>

fun truthy :: "int option \<Rightarrow> bool" where
  "truthy None = False"
| "truthy (Some n) = (n \<noteq> 0)"

text \<open>
  The columns of table \<open>inventory_transactions\<close> that restrict their values:
  \<open>quantity INTEGER\<close>, \<open>reference_number VARCHAR(100)\<close>, \<open>created_by VARCHAR(100)\<close>;
  \<open>notes TEXT\<close> takes every string value. The result is the request with its values as
  the \<open>INSERT\<close> stores them.
\<close>

definition assign_transaction ::
  "CreateTransactionRequest \<Rightarrow> thrown + CreateTransactionRequest" where
  "assign_transaction req =
     (if int4 (ct_quantity req)
      then and_then (varchar_opt 100 (ct_referenceNumber req)) (\<lambda>reference_number.
           and_then (pg_text_opt (ct_notes req)) (\<lambda>notes.
           and_then (varchar_opt 100 (ct_createdBy req)) (\<lambda>created_by.
             Inr (req\<lparr>ct_referenceNumber := reference_number, ct_notes := notes,
                      ct_createdBy := created_by\<rparr>))))
      else Inl (PgError ''22003''))"

text \<open>
  \<^verbatim>\<open>INSERT INTO inventory_transactions (product_id, ..., staff_id) VALUES (...) RETURNING ...\<close>
  A value that its column cannot take ends the statement before a key is drawn.
  \<open>product_id\<close> references \<open>products(id)\<close> and \<open>staff_id\<close>, when not null, references
  \<open>staff(id)\<close>: SQLSTATE 23503 when the referenced row is missing.
\<close>

definition insert_transaction ::
  "timestamp \<Rightarrow> CreateTransactionRequest \<Rightarrow> db \<Rightarrow> (thrown + InventoryTransaction option) \<times> db"
  where
  "insert_transaction now req d =
     (case assign_transaction req of
        Inl error \<Rightarrow> (Inl error, d)
      | Inr stored \<Rightarrow>
          (let new_id = inventory_transactions_id_seq d;
               d1 = d\<lparr>inventory_transactions_id_seq := new_id + 1\<rparr>;
               row = \<lparr>t_id = new_id, t_productId = ct_productId stored,
                      t_transactionType = ct_transactionType stored,
                      t_quantity = ct_quantity stored,
                      t_referenceNumber = ct_referenceNumber stored,
                      t_notes = ct_notes stored, t_createdAt = now,
                      t_createdBy = ct_createdBy stored, t_staffId = ct_staffId stored\<rparr>
           in if \<exists>t \<in> set (inventory_transactions d). t_id t = new_id
              then (Inl (PgError ''23505''), d1)
              else if \<not> (\<exists>p \<in> set (products d). p_id p = ct_productId stored)
              then (Inl (PgError ''23503''), d1)
              else if (case ct_staffId stored of None \<Rightarrow> False
                       | Some sid \<Rightarrow> \<not> (\<exists>s \<in> set (staff d). s_id s = sid))
              then (Inl (PgError ''23503''), d1)
              else (Inr (Some row),
                    d1\<lparr>inventory_transactions := inventory_transactions d @ [row]\<rparr>)))"

text \<open>The \<open>switch\<close> on the transaction type.\<close>

definition quantityChange :: "CreateTransactionRequest \<Rightarrow> int" where
  "quantityChange req =
     (case ct_transactionType req of
        RECEIVE \<Rightarrow> ct_quantity req
      | ISSUE \<Rightarrow> - ct_quantity req
      | ADJUSTMENT \<Rightarrow> ct_quantity req)"

text \<open>
  \<^verbatim>\<open>UPDATE inventory SET quantity_on_hand = quantity_on_hand + ${quantityChange},
  last_updated = NOW() WHERE product_id = ${req.productId} RETURNING quantity_on_hand\<close>
  Every row of the product is changed; \<open>queryRow\<close> gives the first of them. The
  parameter is added to an \<open>INTEGER\<close> column, so it is an \<open>INTEGER\<close> too, and so are the
  sum and the generated column of every row that is changed: a value out of that range
  makes the statement fail with SQLSTATE 22003 and no row is changed.
\<close>

definition add_quantity :: "timestamp \<Rightarrow> int \<Rightarrow> Inventory \<Rightarrow> Inventory" where
  "add_quantity now change r =
     generated (r\<lparr>i_quantityOnHand := i_quantityOnHand r + change, i_lastUpdated := now\<rparr>)"

definition update_inventory ::
  "timestamp \<Rightarrow> int \<Rightarrow> int \<Rightarrow> db \<Rightarrow> (thrown + int option) \<times> db" where
  "update_inventory now product_id change d =
     (if int4 change \<and>
         list_all (\<lambda>r. int4 (i_quantityOnHand (add_quantity now change r)) \<and>
                       int4 (i_quantityAvailable (add_quantity now change r)))
                  (filter (\<lambda>r. i_productId r = product_id) (inventory d))
      then (Inr (map_option (\<lambda>r. i_quantityOnHand (add_quantity now change r))
                   (find (\<lambda>r. i_productId r = product_id) (inventory d))),
            d\<lparr>inventory := map (\<lambda>r. if i_productId r = product_id
                                     then add_quantity now change r else r) (inventory d)\<rparr>)
      else (Inl (PgError ''22003''), d))"

text \<open>The body of the \<open>try\<close> block of \<open>createTransaction\<close>, running on the state \<open>tx\<close>
  of the open transaction.\<close>

definition createTransaction_try ::
  "timestamp \<Rightarrow> CreateTransactionRequest \<Rightarrow> db \<Rightarrow> (thrown + InventoryTransaction) \<times> db" where
  "createTransaction_try now req tx =
     (case find (\<lambda>p. p_id p = ct_productId req) (products tx) of
        None \<Rightarrow> (Inl (APIError NotFound ''Product not found''), tx)
      | Some product \<Rightarrow>
          if truthy (ct_staffId req) \<and>
             find (\<lambda>s. Some (s_id s) = ct_staffId req) (staff tx) = None
          then (Inl (APIError NotFound ''Staff member not found''), tx)
          else
            (case insert_transaction now req tx of
               (Inl error, tx1) \<Rightarrow> (Inl error, tx1)
             | (Inr None, tx1) \<Rightarrow>
                 (Inl (APIError Internal ''Failed to create transaction''), tx1)
             | (Inr (Some transaction), tx1) \<Rightarrow>
                 (case update_inventory now (ct_productId req) (quantityChange req) tx1 of
                    (Inl error, tx2) \<Rightarrow> (Inl error, tx2)
                  | (Inr None, tx2) \<Rightarrow>
                      (Inl (APIError Internal ''Failed to update inventory''), tx2)
                  | (Inr (Some quantity_on_hand), tx2) \<Rightarrow>
                      if quantity_on_hand < 0
                      then (Inl (APIError InvalidArgument
                                   ''Transaction would result in negative inventory''), tx2)
                      else (Inr transaction, tx2))))"

text \<open>\<open>tx.rollback()\<close>: the tables are those of the state \<open>d\<close> at \<open>begin\<close>; the
  sequences keep the values drawn inside the transaction.\<close>

definition rollback :: "db \<Rightarrow> db \<Rightarrow> db" where
  "rollback d tx =
     tx\<lparr>products := products d, inventory := inventory d,
        inventory_transactions := inventory_transactions d, assets := assets d,
        asset_maintenance := asset_maintenance d, staff := staff d\<rparr>"

text \<open>\<open>createTransaction\<close>: \<open>begin\<close>, the \<open>try\<close> block, then \<open>commit\<close>; the \<open>catch\<close>
  rolls back and rethrows the error unchanged.\<close>

definition createTransaction ::
  "timestamp \<Rightarrow> CreateTransactionRequest \<Rightarrow> db \<Rightarrow> (thrown + InventoryTransaction) \<times> db" where
  "createTransaction now req d =
     (case createTransaction_try now req d of
        (Inl error, tx) \<Rightarrow> (Inl error, rollback d tx)
      | (Inr transaction, tx) \<Rightarrow> (Inr transaction, tx))"

section \<open>Assets (\<open>assets.ts\<close>)\<close>

record CreateAssetRequest =
  ca_assetTag :: string
  ca_name :: string
  ca_description :: "string option"
  ca_category :: "string option"
  ca_brand :: "string option"
  ca_model :: "string option"
  ca_serialNumber :: "string option"
  ca_purchaseDate :: "timestamp option"
  ca_purchasePrice :: "real option"
  ca_currentValue :: "real option"
  ca_location :: "string option"
  ca_status :: AssetStatus
  ca_assignedTo :: "string option"
  ca_warrantyExpiry :: "timestamp option"

record UpdateAssetRequest =
  ua_id :: int
  ua_assetTag :: string
  ua_name :: string
  ua_description :: "string option"
  ua_category :: "string option"
  ua_brand :: "string option"
  ua_model :: "string option"
  ua_serialNumber :: "string option"
  ua_purchaseDate :: "timestamp option"
  ua_purchasePrice :: "real option"
  ua_currentValue :: "real option"
  ua_location :: "string option"
  ua_status :: AssetStatus
  ua_assignedTo :: "string option"
  ua_warrantyExpiry :: "timestamp option"

record CreateMaintenanceRequest =
  cm_assetId :: int
  cm_maintenanceType :: string
  cm_description :: "string option"
  cm_cost :: "real option"
  cm_performedDate :: timestamp
  cm_performedBy :: "string option"
  cm_nextDueDate :: "timestamp option"

text \<open>
  The columns of table \<open>assets\<close> that restrict their values: \<open>asset_tag VARCHAR(100)\<close>,
  \<open>name VARCHAR(255)\<close>, \<open>category\<close>, \<open>brand\<close>, \<open>model\<close>, \<open>serial_number\<close> and
  \<open>assigned_to VARCHAR(100)\<close>, \<open>location VARCHAR(255)\<close>. The result is the eight
  strings as the columns store them. The column \<open>description TEXT\<close> takes every string
  value.
\<close>

definition asset_columns ::
  "string \<Rightarrow> string \<Rightarrow> string option \<Rightarrow> string option \<Rightarrow> string option \<Rightarrow> string option \<Rightarrow>
   string option \<Rightarrow> string option \<Rightarrow>
   thrown + (string \<times> string \<times> string option \<times> string option \<times> string option \<times>
             string option \<times> string option \<times> string option)" where
  "asset_columns asset_tag name category brand model serial_number location assigned_to =
     and_then (varchar 100 asset_tag) (\<lambda>asset_tag'.
     and_then (varchar 255 name) (\<lambda>name'.
     and_then (varchar_opt 100 category) (\<lambda>category'.
     and_then (varchar_opt 100 brand) (\<lambda>brand'.
     and_then (varchar_opt 100 model) (\<lambda>model'.
     and_then (varchar_opt 100 serial_number) (\<lambda>serial_number'.
     and_then (varchar_opt 255 location) (\<lambda>location'.
     and_then (varchar_opt 100 assigned_to) (\<lambda>assigned_to'.
       Inr (asset_tag', name', category', brand', model', serial_number', location',
            assigned_to')))))))))"

definition assign_asset :: "CreateAssetRequest \<Rightarrow> thrown + CreateAssetRequest" where
  "assign_asset req =
     and_then (pg_text_opt (ca_description req)) (\<lambda>description.
     and_then (asset_columns (ca_assetTag req) (ca_name req) (ca_category req) (ca_brand req)
                 (ca_model req) (ca_serialNumber req) (ca_location req) (ca_assignedTo req))
       (\<lambda>(asset_tag, name, category, brand, model, serial_number, location, assigned_to).
          Inr (req\<lparr>ca_assetTag := asset_tag, ca_name := name, ca_description := description,
                   ca_category := category, ca_brand := brand, ca_model := model,
                   ca_serialNumber := serial_number, ca_location := location,
                   ca_assignedTo := assigned_to\<rparr>)))"

text \<open>\<^verbatim>\<open>INSERT INTO assets (asset_tag, ..., warranty_expiry) VALUES (...) RETURNING ...\<close>;
  \<open>asset_tag\<close> is \<open>UNIQUE\<close>.\<close>

definition insert_asset ::
  "timestamp \<Rightarrow> CreateAssetRequest \<Rightarrow> db \<Rightarrow> (thrown + Asset option) \<times> db" where
  "insert_asset now req d =
     (case assign_asset req of
        Inl error \<Rightarrow> (Inl error, d)
      | Inr stored \<Rightarrow>
          (let new_id = assets_id_seq d;
               d1 = d\<lparr>assets_id_seq := new_id + 1\<rparr>;
               row = \<lparr>a_id = new_id, a_assetTag = ca_assetTag stored, a_name = ca_name stored,
                      a_description = ca_description stored, a_category = ca_category stored,
                      a_brand = ca_brand stored, a_model = ca_model stored,
                      a_serialNumber = ca_serialNumber stored,
                      a_purchaseDate = ca_purchaseDate stored,
                      a_purchasePrice = ca_purchasePrice stored,
                      a_currentValue = ca_currentValue stored,
                      a_location = ca_location stored, a_status = ca_status stored,
                      a_assignedTo = ca_assignedTo stored,
                      a_warrantyExpiry = ca_warrantyExpiry stored,
                      a_createdAt = now, a_updatedAt = now\<rparr>
           in if \<exists>a \<in> set (assets d). a_id a = new_id \<or> a_assetTag a = ca_assetTag stored
              then (Inl (PgError ''23505''), d1)
              else (Inr (Some row), d1\<lparr>assets := assets d @ [row]\<rparr>)))"

definition createAsset ::
  "timestamp \<Rightarrow> CreateAssetRequest \<Rightarrow> db \<Rightarrow> (thrown + Asset) \<times> db" where
  "createAsset now req d =
     (let handler = catch_unique ''Asset with this tag already exists''
                                 ''Failed to create asset''
      in case insert_asset now req d of
           (Inl error, d1) \<Rightarrow> (Inl (handler error), d1)
         | (Inr None, d1) \<Rightarrow> (Inl (handler (APIError Internal ''Failed to create asset'')), d1)
         | (Inr (Some asset), d1) \<Rightarrow> (Inr asset, d1))"

definition getAsset :: "int \<Rightarrow> db \<Rightarrow> thrown + Asset" where
  "getAsset ident d =
     (case find (\<lambda>a. a_id a = ident) (assets d) of
        None \<Rightarrow> Inl (APIError NotFound ''Asset not found'')
      | Some asset \<Rightarrow> Inr asset)"

definition set_asset :: "timestamp \<Rightarrow> UpdateAssetRequest \<Rightarrow> Asset \<Rightarrow> Asset" where
  "set_asset now req a =
     a\<lparr>a_assetTag := ua_assetTag req, a_name := ua_name req,
       a_description := ua_description req, a_category := ua_category req,
       a_brand := ua_brand req, a_model := ua_model req,
       a_serialNumber := ua_serialNumber req, a_purchaseDate := ua_purchaseDate req,
       a_purchasePrice := ua_purchasePrice req, a_currentValue := ua_currentValue req,
       a_location := ua_location req, a_status := ua_status req,
       a_assignedTo := ua_assignedTo req, a_warrantyExpiry := ua_warrantyExpiry req,
       a_updatedAt := now\<rparr>"

text \<open>\<^verbatim>\<open>UPDATE assets SET asset_tag = ..., updated_at = NOW() WHERE id = ${req.id}
  RETURNING ...\<close>\<close>

definition assign_asset_update :: "UpdateAssetRequest \<Rightarrow> thrown + UpdateAssetRequest" where
  "assign_asset_update req =
     and_then (pg_text_opt (ua_description req)) (\<lambda>description.
     and_then (asset_columns (ua_assetTag req) (ua_name req) (ua_category req) (ua_brand req)
                 (ua_model req) (ua_serialNumber req) (ua_location req) (ua_assignedTo req))
       (\<lambda>(asset_tag, name, category, brand, model, serial_number, location, assigned_to).
          Inr (req\<lparr>ua_assetTag := asset_tag, ua_name := name, ua_description := description,
                   ua_category := category, ua_brand := brand, ua_model := model,
                   ua_serialNumber := serial_number, ua_location := location,
                   ua_assignedTo := assigned_to\<rparr>)))"

definition update_asset ::
  "timestamp \<Rightarrow> UpdateAssetRequest \<Rightarrow> db \<Rightarrow> (thrown + Asset option) \<times> db" where
  "update_asset now req d =
     (case assign_asset_update req of
        Inl error \<Rightarrow> (Inl error, d)
      | Inr stored \<Rightarrow>
          (let hit = (\<lambda>a. a_id a = ua_id req)
           in if (\<exists>a \<in> set (assets d). hit a) \<and>
                 (\<exists>b \<in> set (assets d). \<not> hit b \<and> a_assetTag b = ua_assetTag stored)
              then (Inl (PgError ''23505''), d)
              else (Inr (map_option (set_asset now stored) (find hit (assets d))),
                    d\<lparr>assets := map (\<lambda>a. if hit a then set_asset now stored a else a)
                                     (assets d)\<rparr>)))"

definition updateAsset ::
  "timestamp \<Rightarrow> UpdateAssetRequest \<Rightarrow> db \<Rightarrow> (thrown + Asset) \<times> db" where
  "updateAsset now req d =
     (let handler = catch_unique ''Asset with this tag already exists''
                                 ''Failed to update asset''
      in case update_asset now req d of
           (Inl error, d1) \<Rightarrow> (Inl (handler error), d1)
         | (Inr None, d1) \<Rightarrow> (Inl (handler (APIError NotFound ''Asset not found'')), d1)
         | (Inr (Some asset), d1) \<Rightarrow> (Inr asset, d1))"

text \<open>\<^verbatim>\<open>DELETE FROM assets WHERE id = ${id} RETURNING id\<close>;
  \<open>asset_maintenance.asset_id\<close> references the asset \<open>ON DELETE CASCADE\<close>.\<close>

definition delete_asset :: "int \<Rightarrow> db \<Rightarrow> int option \<times> db" where
  "delete_asset ident d =
     (case find (\<lambda>a. a_id a = ident) (assets d) of
        None \<Rightarrow> (None, d)
      | Some deleted \<Rightarrow>
          (Some (a_id deleted),
           d\<lparr>assets := filter (\<lambda>a. a_id a \<noteq> ident) (assets d),
             asset_maintenance :=
               filter (\<lambda>m. m_assetId m \<noteq> ident) (asset_maintenance d)\<rparr>))"

definition deleteAsset :: "int \<Rightarrow> db \<Rightarrow> (thrown + unit) \<times> db" where
  "deleteAsset ident d =
     (case delete_asset ident d of
        (None, d1) \<Rightarrow> (Inl (APIError NotFound ''Asset not found''), d1)
      | (Some _, d1) \<Rightarrow> (Inr (), d1))"

text \<open>The columns \<open>maintenance_type VARCHAR(50)\<close>, \<open>description TEXT\<close> and
  \<open>performed_by VARCHAR(100)\<close>.\<close>

definition assign_maintenance ::
  "CreateMaintenanceRequest \<Rightarrow> thrown + CreateMaintenanceRequest" where
  "assign_maintenance req =
     and_then (varchar 50 (cm_maintenanceType req)) (\<lambda>maintenance_type.
     and_then (pg_text_opt (cm_description req)) (\<lambda>description.
     and_then (varchar_opt 100 (cm_performedBy req)) (\<lambda>performed_by.
       Inr (req\<lparr>cm_maintenanceType := maintenance_type, cm_description := description,
                cm_performedBy := performed_by\<rparr>))))"

text \<open>\<^verbatim>\<open>INSERT INTO asset_maintenance (asset_id, ..., next_due_date) VALUES (...)
  RETURNING ...\<close>; \<open>asset_id\<close> references \<open>assets(id)\<close>.\<close>

definition insert_maintenance ::
  "timestamp \<Rightarrow> CreateMaintenanceRequest \<Rightarrow> db \<Rightarrow> (thrown + AssetMaintenance option) \<times> db"
  where
  "insert_maintenance now req d =
     (case assign_maintenance req of
        Inl error \<Rightarrow> (Inl error, d)
      | Inr stored \<Rightarrow>
          (let new_id = asset_maintenance_id_seq d;
               d1 = d\<lparr>asset_maintenance_id_seq := new_id + 1\<rparr>;
               row = \<lparr>m_id = new_id, m_assetId = cm_assetId stored,
                      m_maintenanceType = cm_maintenanceType stored,
                      m_description = cm_description stored, m_cost = cm_cost stored,
                      m_performedDate = cm_performedDate stored,
                      m_performedBy = cm_performedBy stored,
                      m_nextDueDate = cm_nextDueDate stored, m_createdAt = now\<rparr>
           in if \<exists>m \<in> set (asset_maintenance d). m_id m = new_id
              then (Inl (PgError ''23505''), d1)
              else if \<not> (\<exists>a \<in> set (assets d). a_id a = cm_assetId stored)
              then (Inl (PgError ''23503''), d1)
              else (Inr (Some row),
                    d1\<lparr>asset_maintenance := asset_maintenance d @ [row]\<rparr>)))"

text \<open>\<open>createMaintenance\<close> has no \<open>try\<close>: an error of the database passes through.\<close>

definition createMaintenance ::
  "timestamp \<Rightarrow> CreateMaintenanceRequest \<Rightarrow> db \<Rightarrow> (thrown + AssetMaintenance) \<times> db" where
  "createMaintenance now req d =
     (case find (\<lambda>a. a_id a = cm_assetId req) (assets d) of
        None \<Rightarrow> (Inl (APIError NotFound ''Asset not found''), d)
      | Some asset \<Rightarrow>
          (case insert_maintenance now req d of
             (Inl error, d1) \<Rightarrow> (Inl error, d1)
           | (Inr None, d1) \<Rightarrow>
               (Inl (APIError Internal ''Failed to create maintenance record''), d1)
           | (Inr (Some maintenance), d1) \<Rightarrow> (Inr maintenance, d1)))"

section \<open>Staff (the staff handlers)\<close>

record CreateStaffRequest =
  cs_employeeId :: string
  cs_firstName :: string
  cs_lastName :: string
  cs_email :: "string option"
  cs_phone :: "string option"
  cs_department :: "string option"
  cs_position :: "string option"
  cs_hireDate :: "timestamp option"
  cs_status :: StaffStatus

record UpdateStaffRequest =
  us_id :: int
  us_employeeId :: string
  us_firstName :: string
  us_lastName :: string
  us_email :: "string option"
  us_phone :: "string option"
  us_department :: "string option"
  us_position :: "string option"
  us_hireDate :: "timestamp option"
  us_status :: StaffStatus

text \<open>The two \<open>UNIQUE\<close> constraints of table \<open>staff\<close>: \<open>employee_id\<close>, and \<open>email\<close>
  among the rows where it is not null.\<close>

definition staff_clash :: "string \<Rightarrow> string option \<Rightarrow> Staff \<Rightarrow> bool" where
  "staff_clash employee_id email s =
     (s_employeeId s = employee_id \<or> (email \<noteq> None \<and> s_email s = email))"

text \<open>
  The columns of table \<open>staff\<close> that restrict their values: \<open>employee_id VARCHAR(50)\<close>,
  \<open>first_name\<close>, \<open>last_name\<close>, \<open>department\<close> and \<open>position VARCHAR(100)\<close>,
  \<open>email VARCHAR(255)\<close>, \<open>phone VARCHAR(20)\<close>. The result is the seven strings as the
  columns store them.
\<close>

definition staff_columns ::
  "string \<Rightarrow> string \<Rightarrow> string \<Rightarrow> string option \<Rightarrow> string option \<Rightarrow> string option \<Rightarrow>
   string option \<Rightarrow>
   thrown + (string \<times> string \<times> string \<times> string option \<times> string option \<times> string option \<times>
             string option)" where
  "staff_columns employee_id first_name last_name email phone department position =
     and_then (varchar 50 employee_id) (\<lambda>employee_id'.
     and_then (varchar 100 first_name) (\<lambda>first_name'.
     and_then (varchar 100 last_name) (\<lambda>last_name'.
     and_then (varchar_opt 255 email) (\<lambda>email'.
     and_then (varchar_opt 20 phone) (\<lambda>phone'.
     and_then (varchar_opt 100 department) (\<lambda>department'.
     and_then (varchar_opt 100 position) (\<lambda>position'.
       Inr (employee_id', first_name', last_name', email', phone', department',
            position'))))))))"

definition assign_staff :: "CreateStaffRequest \<Rightarrow> thrown + CreateStaffRequest" where
  "assign_staff req =
     and_then (staff_columns (cs_employeeId req) (cs_firstName req) (cs_lastName req)
                 (cs_email req) (cs_phone req) (cs_department req) (cs_position req))
       (\<lambda>(employee_id, first_name, last_name, email, phone, department, position).
          Inr (req\<lparr>cs_employeeId := employee_id, cs_firstName := first_name,
                   cs_lastName := last_name, cs_email := email, cs_phone := phone,
                   cs_department := department, cs_position := position\<rparr>))"

text \<open>\<^verbatim>\<open>INSERT INTO staff (employee_id, ..., status) VALUES (...) RETURNING ...\<close>\<close>

definition insert_staff ::
  "timestamp \<Rightarrow> CreateStaffRequest \<Rightarrow> db \<Rightarrow> (thrown + Staff option) \<times> db" where
  "insert_staff now req d =
     (case assign_staff req of
        Inl error \<Rightarrow> (Inl error, d)
      | Inr stored \<Rightarrow>
          (let new_id = staff_id_seq d;
               d1 = d\<lparr>staff_id_seq := new_id + 1\<rparr>;
               row = \<lparr>s_id = new_id, s_employeeId = cs_employeeId stored,
                      s_firstName = cs_firstName stored, s_lastName = cs_lastName stored,
                      s_email = cs_email stored, s_phone = cs_phone stored,
                      s_department = cs_department stored, s_position = cs_position stored,
                      s_hireDate = cs_hireDate stored, s_status = cs_status stored,
                      s_createdAt = now, s_updatedAt = now\<rparr>
           in if \<exists>s \<in> set (staff d).
                   s_id s = new_id \<or> staff_clash (cs_employeeId stored) (cs_email stored) s
              then (Inl (PgError ''23505''), d1)
              else (Inr (Some row), d1\<lparr>staff := staff d @ [row]\<rparr>)))"

definition createStaff ::
  "timestamp \<Rightarrow> CreateStaffRequest \<Rightarrow> db \<Rightarrow> (thrown + Staff) \<times> db" where
  "createStaff now req d =
     (let handler = catch_unique
            ''Staff member with this employee ID or email already exists''
            ''Failed to create staff member''
      in case insert_staff now req d of
           (Inl error, d1) \<Rightarrow> (Inl (handler error), d1)
         | (Inr None, d1) \<Rightarrow>
             (Inl (handler (APIError Internal ''Failed to create staff member'')), d1)
         | (Inr (Some member), d1) \<Rightarrow> (Inr member, d1))"

definition getStaff :: "int \<Rightarrow> db \<Rightarrow> thrown + Staff" where
  "getStaff ident d =
     (case find (\<lambda>s. s_id s = ident) (staff d) of
        None \<Rightarrow> Inl (APIError NotFound ''Staff member not found'')
      | Some member \<Rightarrow> Inr member)"

definition set_staff :: "timestamp \<Rightarrow> UpdateStaffRequest \<Rightarrow> Staff \<Rightarrow> Staff" where
  "set_staff now req s =
     s\<lparr>s_employeeId := us_employeeId req, s_firstName := us_firstName req,
       s_lastName := us_lastName req, s_email := us_email req, s_phone := us_phone req,
       s_department := us_department req, s_position := us_position req,
       s_hireDate := us_hireDate req, s_status := us_status req, s_updatedAt := now\<rparr>"

text \<open>\<^verbatim>\<open>UPDATE staff SET employee_id = ..., updated_at = NOW() WHERE id = ${req.id}
  RETURNING ...\<close>\<close>

definition assign_staff_update :: "UpdateStaffRequest \<Rightarrow> thrown + UpdateStaffRequest" where
  "assign_staff_update req =
     and_then (staff_columns (us_employeeId req) (us_firstName req) (us_lastName req)
                 (us_email req) (us_phone req) (us_department req) (us_position req))
       (\<lambda>(employee_id, first_name, last_name, email, phone, department, position).
          Inr (req\<lparr>us_employeeId := employee_id, us_firstName := first_name,
                   us_lastName := last_name, us_email := email, us_phone := phone,
                   us_department := department, us_position := position\<rparr>))"

definition update_staff ::
  "timestamp \<Rightarrow> UpdateStaffRequest \<Rightarrow> db \<Rightarrow> (thrown + Staff option) \<times> db" where
  "update_staff now req d =
     (case assign_staff_update req of
        Inl error \<Rightarrow> (Inl error, d)
      | Inr stored \<Rightarrow>
          (let hit = (\<lambda>s. s_id s = us_id req)
           in if (\<exists>s \<in> set (staff d). hit s) \<and>
                 (\<exists>r \<in> set (staff d).
                    \<not> hit r \<and> staff_clash (us_employeeId stored) (us_email stored) r)
              then (Inl (PgError ''23505''), d)
              else (Inr (map_option (set_staff now stored) (find hit (staff d))),
                    d\<lparr>staff := map (\<lambda>s. if hit s then set_staff now stored s else s)
                                    (staff d)\<rparr>)))"

definition updateStaff ::
  "timestamp \<Rightarrow> UpdateStaffRequest \<Rightarrow> db \<Rightarrow> (thrown + Staff) \<times> db" where
  "updateStaff now req d =
     (let handler = catch_unique
            ''Staff member with this employee ID or email already exists''
            ''Failed to update staff member''
      in case update_staff now req d of
           (Inl error, d1) \<Rightarrow> (Inl (handler error), d1)
         | (Inr None, d1) \<Rightarrow>
             (Inl (handler (APIError NotFound ''Staff member not found'')), d1)
         | (Inr (Some member), d1) \<Rightarrow> (Inr member, d1))"

text \<open>
  \<^verbatim>\<open>DELETE FROM staff WHERE id = ${id} RETURNING id\<close>
  \<open>inventory_transactions.staff_id\<close> references \<open>staff(id)\<close> with no \<open>ON DELETE\<close>
  action: a staff row that a transaction refers to cannot be deleted (SQLSTATE 23503).
\<close>

definition delete_staff :: "int \<Rightarrow> db \<Rightarrow> (thrown + int option) \<times> db" where
  "delete_staff ident d =
     (case find (\<lambda>s. s_id s = ident) (staff d) of
        None \<Rightarrow> (Inr None, d)
      | Some deleted \<Rightarrow>
          if \<exists>t \<in> set (inventory_transactions d). t_staffId t = Some ident
          then (Inl (PgError ''23503''), d)
          else (Inr (Some (s_id deleted)),
                d\<lparr>staff := filter (\<lambda>s. s_id s \<noteq> ident) (staff d)\<rparr>))"

definition deleteStaff :: "int \<Rightarrow> db \<Rightarrow> (thrown + unit) \<times> db" where
  "deleteStaff ident d =
     (case delete_staff ident d of
        (Inl error, d1) \<Rightarrow> (Inl error, d1)
      | (Inr None, d1) \<Rightarrow> (Inl (APIError NotFound ''Staff member not found''), d1)
      | (Inr (Some _), d1) \<Rightarrow> (Inr (), d1))"

section \<open>The inventory report (\<open>getInventoryReport\<close>)\<close>

text \<open>\<^verbatim>\<open>FROM products p JOIN inventory i ON p.id = i.product_id\<close>\<close>

definition products_join_inventory :: "db \<Rightarrow> (Product \<times> Inventory) list" where
  "products_join_inventory d =
     concat (map (\<lambda>p. map (\<lambda>i. (p, i)) (filter (\<lambda>i. p_id p = i_productId i) (inventory d)))
                 (products d))"

text \<open>The four scalar fields of \<open>InventoryReport\<close>. The fifth, \<open>categories\<close>, is a
  grouped listing ordered by value; the record leaves it out.\<close>

record InventoryReport =
  totalProducts :: int
  totalValue :: real
  lowStockItems :: int
  outOfStockItems :: int

text \<open>The idiom \<^verbatim>\<open>result?.count || 0\<close>: a missing row and the value \<open>0\<close> both
  give \<open>0\<close>.\<close>

definition or_zero :: "'a::zero option \<Rightarrow> 'a" where
  "or_zero result = (case result of None \<Rightarrow> 0 | Some v \<Rightarrow> if v = 0 then 0 else v)"

text \<open>\<^verbatim>\<open>SELECT COUNT(*) as count FROM products\<close>\<close>

definition total_products_count :: "db \<Rightarrow> int" where
  "total_products_count d = int (length (products d))"

text \<open>
  \<^verbatim>\<open>SELECT COALESCE(SUM(p.unit_price * i.quantity_on_hand), 0) as total
  FROM products p JOIN inventory i ON p.id = i.product_id\<close>
  The products and their sum are \<open>DOUBLE PRECISION\<close> arithmetic of the database: how a
  product or a partial sum is rounded is not the handler's. The model takes the
  aggregate as a parameter \<open>sum_of\<close>: from the rows \<open>(unit_price, quantity_on_hand)\<close> that
  are summed, in their order, to the sum, or to \<open>None\<close> when the sum is out of range.
  Two things are fixed: over no rows \<open>SUM\<close> is null and \<open>COALESCE\<close> gives \<open>0\<close>; and a
  product of magnitude \<open>2 ^ 1024\<close> or more is beyond every \<open>DOUBLE PRECISION\<close> value, so
  the multiplication overflows. A value out of range makes the query fail with SQLSTATE
  22003.
\<close>

type_synonym float8_sum = "(real \<times> int) list \<Rightarrow> real option"

text \<open>\<^verbatim>\<open>SUM(p.unit_price * i.quantity_on_hand)\<close> over rows, at least one.\<close>

definition sum_values :: "float8_sum \<Rightarrow> (real \<times> int) list \<Rightarrow> thrown + real" where
  "sum_values sum_of rows =
     (if list_ex (\<lambda>(x, n). 2 ^ 1024 \<le> \<bar>x * of_int n\<bar>) rows then Inl (PgError ''22003'')
      else case sum_of rows of
             None \<Rightarrow> Inl (PgError ''22003'')
           | Some amount \<Rightarrow> Inr amount)"

definition total_value :: "float8_sum \<Rightarrow> db \<Rightarrow> thrown + real" where
  "total_value sum_of d =
     (let rows = map (\<lambda>(p, i). (p_unitPrice p, i_quantityOnHand i))
                     (products_join_inventory d)
      in if rows = [] then Inr 0 else sum_values sum_of rows)"

text \<open>
  \<^verbatim>\<open>SELECT COUNT(*) as count FROM products p JOIN inventory i ON p.id = i.product_id
  WHERE i.quantity_on_hand <= p.reorder_level AND i.quantity_on_hand > 0\<close>
\<close>

definition low_stock_count :: "db \<Rightarrow> int" where
  "low_stock_count d =
     int (length (filter
       (\<lambda>(p, i). i_quantityOnHand i \<le> p_reorderLevel p \<and> i_quantityOnHand i > 0)
       (products_join_inventory d)))"

text \<open>\<^verbatim>\<open>SELECT COUNT(*) as count FROM inventory WHERE quantity_on_hand = 0\<close>\<close>

definition out_of_stock_count :: "db \<Rightarrow> int" where
  "out_of_stock_count d = int (length (filter (\<lambda>i. i_quantityOnHand i = 0) (inventory d)))"

text \<open>
  \<^verbatim>\<open>SELECT COALESCE(p.category, 'Uncategorized') as category, COUNT(*) as count,
  COALESCE(SUM(p.unit_price * i.quantity_on_hand), 0) as value
  FROM products p JOIN inventory i ON p.id = i.product_id
  GROUP BY p.category ORDER BY value DESC\<close>
  Of this query the model keeps whether it fails: it does when the sum of one group is
  out of range.
\<close>

definition categories_query :: "float8_sum \<Rightarrow> db \<Rightarrow> thrown + unit" where
  "categories_query sum_of d =
     (let joined = products_join_inventory d;
          groups = remdups (map (\<lambda>(p, i). p_category p) joined)
      in if list_ex
              (\<lambda>c. isl (sum_values sum_of
                          (map (\<lambda>(p, i). (p_unitPrice p, i_quantityOnHand i))
                               (filter (\<lambda>(p, i). p_category p = c) joined))))
              groups
         then Inl (PgError ''22003'')
         else Inr ())"

text \<open>\<open>getInventoryReport\<close>: the five queries one after another; the handler has no
  \<open>try\<close>, so the error of a query is the handler's.\<close>

definition getInventoryReport :: "float8_sum \<Rightarrow> db \<Rightarrow> thrown + InventoryReport" where
  "getInventoryReport sum_of d =
     (let totalProductsResult = Some (total_products_count d)
      in case total_value sum_of d of
           Inl error \<Rightarrow> Inl error
         | Inr amount \<Rightarrow>
             (let totalValueResult = Some amount;
                  lowStockResult = Some (low_stock_count d);
                  outOfStockResult = Some (out_of_stock_count d)
              in case categories_query sum_of d of
                   Inl error \<Rightarrow> Inl error
                 | Inr categories \<Rightarrow>
                     Inr \<lparr>totalProducts = or_zero totalProductsResult,
                          totalValue = or_zero totalValueResult,
                          lowStockItems = or_zero lowStockResult,
                          outOfStockItems = or_zero outOfStockResult\<rparr>))"

section \<open>Sequences of calls\<close>

text \<open>The handlers that write. The remaining ones (\<open>get\<close>, \<open>list\<close>, the reports) only
  read.\<close>

datatype call =
    CreateProduct timestamp CreateProductRequest
  | UpdateProduct timestamp UpdateProductRequest
  | DeleteProduct int
  | CreateTransaction timestamp CreateTransactionRequest
  | CreateAsset timestamp CreateAssetRequest
  | UpdateAsset timestamp UpdateAssetRequest
  | DeleteAsset int
  | CreateMaintenance timestamp CreateMaintenanceRequest
  | CreateStaff timestamp CreateStaffRequest
  | UpdateStaff timestamp UpdateStaffRequest
  | DeleteStaff int

fun exec :: "call \<Rightarrow> db \<Rightarrow> db" where
  "exec (CreateProduct now req) d = snd (createProduct now req d)"
| "exec (UpdateProduct now req) d = snd (updateProduct now req d)"
| "exec (DeleteProduct ident) d = snd (deleteProduct ident d)"
| "exec (CreateTransaction now req) d = snd (createTransaction now req d)"
| "exec (CreateAsset now req) d = snd (createAsset now req d)"
| "exec (UpdateAsset now req) d = snd (updateAsset now req d)"
| "exec (DeleteAsset ident) d = snd (deleteAsset ident d)"
| "exec (CreateMaintenance now req) d = snd (createMaintenance now req d)"
| "exec (CreateStaff now req) d = snd (createStaff now req d)"
| "exec (UpdateStaff now req) d = snd (updateStaff now req d)"
| "exec (DeleteStaff ident) d = snd (deleteStaff ident d)"

text \<open>The state after a sequence of calls, the first call first.\<close>

fun run :: "call list \<Rightarrow> db \<Rightarrow> db" where
  "run [] d = d"
| "run (c # cs) d = run cs (exec c d)"

section \<open>Properties of database states\<close>

text \<open>The generated column holds in every row of \<open>inventory\<close>.\<close>

definition available_generated :: "db \<Rightarrow> bool" where
  "available_generated d =
     (\<forall>i \<in> set (inventory d).
        i_quantityAvailable i = i_quantityOnHand i - i_quantityReserved i)"

text \<open>No inventory row has a negative quantity on hand.\<close>

definition stock_nonnegative :: "db \<Rightarrow> bool" where
  "stock_nonnegative d = (\<forall>i \<in> set (inventory d). 0 \<le> i_quantityOnHand i)"

text \<open>
  What the handlers keep true of products, inventory and transactions: the sequences of
  \<open>inventory\<close> and \<open>inventory_transactions\<close> are ahead of the keys in their tables; the
  products that have an inventory row are exactly the products of the table (every
  inventory row belongs to a product, every product has an inventory row); no product
  has two inventory rows; no quantity on hand is negative or beyond the \<open>INTEGER\<close>
  range; no quantity is reserved (no handler writes that column).
\<close>

definition consistent :: "db \<Rightarrow> bool" where
  "consistent d =
     ((\<forall>i \<in> set (inventory d). i_id i < inventory_id_seq d) \<and>
      (\<forall>t \<in> set (inventory_transactions d). t_id t < inventory_transactions_id_seq d) \<and>
      i_productId ` set (inventory d) = p_id ` set (products d) \<and>
      distinct (map i_productId (inventory d)) \<and>
      stock_nonnegative d \<and>
      (\<forall>i \<in> set (inventory d). i_quantityOnHand i \<le> 2147483647 \<and> i_quantityReserved i = 0))"

text \<open>A string that a column of \<open>n\<close> characters takes as it is: without the character
  with code 0 and of at most \<open>n\<close> characters. An absent value always is.\<close>

definition fits :: "nat \<Rightarrow> string \<Rightarrow> bool" where
  "fits n s = (CHR 0x00 \<notin> set s \<and> length s \<le> n)"



text \<open>A request whose strings are no longer than their columns: name 255, sku 100,
  category 100, unit of measure 50 characters.\<close>

definition product_fits :: "CreateProductRequest \<Rightarrow> bool" where
  "product_fits req =
     (length (cp_name req) \<le> 255 \<and> length (cp_sku req) \<le> 100 \<and>
      (case cp_category req of None \<Rightarrow> True | Some s \<Rightarrow> length s \<le> 100) \<and>
      length (cp_unitOfMeasure req) \<le> 50)"

text \<open>Two states with the same products, inventory and transactions, and the same
  sequences for the latter two.\<close>

definition same_stock :: "db \<Rightarrow> db \<Rightarrow> bool" where
  "same_stock d d' =
     (products d' = products d \<and> inventory d' = inventory d \<and>
      inventory_transactions d' = inventory_transactions d \<and>
      inventory_id_seq d' = inventory_id_seq d \<and>
      inventory_transactions_id_seq d' = inventory_transactions_id_seq d)"

section \<open>The report as the specification words it\<close>

text \<open>The quantity on hand of a product is that of its inventory row (\<open>0\<close> for a
  product without one).\<close>

definition quantity_on_hand :: "db \<Rightarrow> Product \<Rightarrow> int" where
  "quantity_on_hand d p =
     (case find (\<lambda>i. i_productId i = p_id p) (inventory d) of
        None \<Rightarrow> 0
      | Some i \<Rightarrow> i_quantityOnHand i)"




section \<open>Example data\<close>

definition bolt :: CreateProductRequest where
  "bolt = \<lparr>cp_name = ''Bolt M8'', cp_description = None, cp_sku = ''B-8'',
           cp_category = Some ''Hardware'', cp_unitOfMeasure = ''pcs'', cp_unitPrice = 5 / 2,
           cp_reorderLevel = 10, cp_maxStockLevel = Some 500\<rparr>"

definition washer :: CreateProductRequest where
  "washer = \<lparr>cp_name = ''Washer'', cp_description = Some ''Flat washer'', cp_sku = ''W-8'',
             cp_category = None, cp_unitOfMeasure = ''pcs'', cp_unitPrice = 1 / 4,
             cp_reorderLevel = 2, cp_maxStockLevel = None\<rparr>"

definition nut :: CreateProductRequest where
  "nut = \<lparr>cp_name = ''Nut M8'', cp_description = None, cp_sku = ''N-8'',
          cp_category = Some ''Hardware'', cp_unitOfMeasure = ''pcs'', cp_unitPrice = 1 / 2,
          cp_reorderLevel = 5, cp_maxStockLevel = None\<rparr>"

definition bolt_renamed :: UpdateProductRequest where
  "bolt_renamed = \<lparr>up_id = 1, up_name = ''Bolt M8x40'', up_description = Some ''Hex bolt'',
                   up_sku = ''B-8-40'', up_category = Some ''Fasteners'',
                   up_unitOfMeasure = ''box'', up_unitPrice = 3, up_reorderLevel = 20,
                   up_maxStockLevel = None\<rparr>"

definition movement ::
  "int \<Rightarrow> TransactionType \<Rightarrow> int \<Rightarrow> int option \<Rightarrow> CreateTransactionRequest" where
  "movement product_id kind quantity staff_id =
     \<lparr>ct_productId = product_id, ct_transactionType = kind, ct_quantity = quantity,
      ct_referenceNumber = None, ct_notes = None, ct_createdBy = None,
      ct_staffId = staff_id\<rparr>"

text \<open>Two products, four bolts received.\<close>

definition stocked :: db where
  "stocked = run [CreateProduct 5 bolt, CreateProduct 6 washer,
                  CreateTransaction 7 (movement 1 RECEIVE 4 None)] empty_db"

text \<open>A unit of measure of 53 characters, the last 50 of them spaces.\<close>

definition nut_padded :: CreateProductRequest where
  "nut_padded =
     nut\<lparr>cp_unitOfMeasure := ''pcs                                                  ''\<rparr>"



text \<open>An aggregate for the examples: the sum without rounding, which is what
  \<open>DOUBLE PRECISION\<close> arithmetic gives where every product and every partial sum is
  itself a \<open>DOUBLE PRECISION\<close> value, as for the prices and quantities of \<open>stocked\<close>.\<close>

definition exact_sum :: float8_sum where
  "exact_sum rows = Some (\<Sum>(x, n)\<leftarrow>rows. x * of_int n)"

section \<open>Looking up a row\<close>

lemma find_Some_set: "find P xs = Some x \<Longrightarrow> x \<in> set xs \<and> P x"
  by (induction xs) (auto split: if_splits)

lemma find_snoc:
  "find P (xs @ [x]) =
     (case find P xs of None \<Rightarrow> if P x then Some x else None | Some y \<Rightarrow> Some y)"
  by (induction xs) auto

lemma find_ex_Some: "\<exists>x\<in>set xs. P x \<Longrightarrow> \<exists>y. find P xs = Some y"
  by (cases "find P xs") (auto simp: find_None_iff)

lemma distinct_find_unique:
  assumes "distinct (map f xs)" and "find (\<lambda>r. f r = k) xs = Some r"
    and "x \<in> set xs" and "f x = k"
  shows "x = r"
proof -
  from assms(2) have "r \<in> set xs" and "f r = k"
    by (auto dest: find_Some_set)
  with assms(1,3,4) show ?thesis
    by (metis distinct_map inj_onD)
qed

lemma filter_one_row:
  assumes "distinct (map f xs)"
  shows "filter (\<lambda>x. f x = k) xs = (case find (\<lambda>x. f x = k) xs of None \<Rightarrow> [] | Some x \<Rightarrow> [x])"
  using assms
proof (induction xs)
  case Nil
  then show ?case by simp
next
  case (Cons x xs)
  show ?case
  proof (cases "f x = k")
    case True
    with Cons.prems have "\<forall>y\<in>set xs. f y \<noteq> k"
      by (metis distinct.simps(2) imageI list.simps(9) set_map)
    then have "filter (\<lambda>x. f x = k) xs = []"
      by (simp add: filter_empty_conv)
    with True show ?thesis by simp
  next
    case False
    with Cons show ?thesis by simp
  qed
qed

section \<open>Values that fit their columns\<close>



text \<open>A string that the column stores is stored as it is when it is no longer than the
  column.\<close>

lemma varchar_short: "varchar n s = Inr s' \<Longrightarrow> length s \<le> n \<Longrightarrow> s' = s"
  by (auto simp: varchar_def pg_text_def and_then_def split: if_splits)

lemma varchar_opt_short:
  "varchar_opt n v = Inr v' \<Longrightarrow> (case v of None \<Rightarrow> True | Some s \<Rightarrow> length s \<le> n) \<Longrightarrow>
     v' = v"
  by (cases v) (auto simp: varchar_opt_def split: sum.splits dest: varchar_short)

lemma pg_text_Inr: "pg_text s = Inr s' \<Longrightarrow> s' = s"
  by (simp add: pg_text_def split: if_splits)

lemma pg_text_opt_Inr: "pg_text_opt v = Inr v' \<Longrightarrow> v' = v"
  by (cases v) (auto simp: pg_text_opt_def split: sum.splits dest: pg_text_Inr)

lemma pg_text_opt_error: "pg_text_opt v = Inl error \<Longrightarrow> code error \<noteq> ''23505''"
  by (cases v) (auto simp: pg_text_opt_def pg_text_def split: sum.splits if_splits)

lemma varchar_error: "varchar n s = Inl error \<Longrightarrow> code error \<noteq> ''23505''"
  by (auto simp: varchar_def pg_text_def and_then_def split: if_splits)

lemma varchar_opt_error: "varchar_opt n v = Inl error \<Longrightarrow> code error \<noteq> ''23505''"
  by (cases v) (auto simp: varchar_opt_def split: sum.splits dest: varchar_error)

lemma and_then_error:
  assumes "and_then r f = Inl error"
  shows "r = Inl error \<or> (\<exists>x. r = Inr x \<and> f x = Inl error)"
  using assms by (cases r) (simp_all add: and_then_def)



lemma assign_product_fits:
  assumes "assign_product req = Inr stored" and "product_fits req"
  shows "stored = req"
proof -
  from assms(1) obtain description name sku category unit where
    d: "pg_text_opt (cp_description req) = Inr description"
    and n: "varchar 255 (cp_name req) = Inr name"
    and s: "varchar 100 (cp_sku req) = Inr sku"
    and c: "varchar_opt 100 (cp_category req) = Inr category"
    and u: "varchar 50 (cp_unitOfMeasure req) = Inr unit"
    and stored: "stored = req\<lparr>cp_name := name, cp_description := description, cp_sku := sku,
                   cp_category := category, cp_unitOfMeasure := unit\<rparr>"
    by (auto simp: assign_product_def product_columns_def and_then_def
          split: sum.splits if_splits)
  from assms(2) have "description = cp_description req" "name = cp_name req"
    "sku = cp_sku req" "category = cp_category req" "unit = cp_unitOfMeasure req"
    using pg_text_opt_Inr[OF d] varchar_short[OF n] varchar_short[OF s]
      varchar_opt_short[OF c] varchar_short[OF u]
    by (simp_all add: product_fits_def)
  with stored show ?thesis by simp
qed

text \<open>An error of the values of a product is never a unique violation.\<close>

lemma product_columns_error:
  assumes "product_columns name sku category unit reorder_level max_stock_level = Inl error"
  shows "code error \<noteq> ''23505''"
  using assms unfolding product_columns_def
  by (auto dest!: and_then_error dest: varchar_error varchar_opt_error split: if_splits)

lemma asset_columns_error:
  assumes "asset_columns asset_tag name category brand model serial_number location assigned_to
             = Inl error"
  shows "code error \<noteq> ''23505''"
  using assms unfolding asset_columns_def
  by (auto dest!: and_then_error dest: varchar_error varchar_opt_error)

lemma staff_columns_error:
  assumes "staff_columns employee_id first_name last_name email phone department position
             = Inl error"
  shows "code error \<noteq> ''23505''"
  using assms unfolding staff_columns_def
  by (auto dest!: and_then_error dest: varchar_error varchar_opt_error)

section \<open>The example states\<close>

lemma stocked_eq:
  "stocked =
     \<lparr>products =
        [\<lparr>p_id = 1, p_name = ''Bolt M8'', p_description = None, p_sku = ''B-8'',
          p_category = Some ''Hardware'', p_unitOfMeasure = ''pcs'', p_unitPrice = 5 / 2,
          p_reorderLevel = 10, p_maxStockLevel = Some 500, p_createdAt = 5, p_updatedAt = 5\<rparr>,
         \<lparr>p_id = 2, p_name = ''Washer'', p_description = Some ''Flat washer'', p_sku = ''W-8'',
          p_category = None, p_unitOfMeasure = ''pcs'', p_unitPrice = 1 / 4,
          p_reorderLevel = 2, p_maxStockLevel = None, p_createdAt = 6, p_updatedAt = 6\<rparr>],
      products_id_seq = 3,
      inventory =
        [\<lparr>i_id = 1, i_productId = 1, i_quantityOnHand = 4, i_quantityReserved = 0,
          i_quantityAvailable = 4, i_lastUpdated = 7\<rparr>,
         \<lparr>i_id = 2, i_productId = 2, i_quantityOnHand = 0, i_quantityReserved = 0,
          i_quantityAvailable = 0, i_lastUpdated = 6\<rparr>],
      inventory_id_seq = 3,
      inventory_transactions =
        [\<lparr>t_id = 1, t_productId = 1, t_transactionType = RECEIVE, t_quantity = 4,
          t_referenceNumber = None, t_notes = None, t_createdAt = 7, t_createdBy = None,
          t_staffId = None\<rparr>],
      inventory_transactions_id_seq = 2,
      assets = [], assets_id_seq = 1, asset_maintenance = [], asset_maintenance_id_seq = 1,
      staff = [], staff_id_seq = 1\<rparr>"
  by (simp add: stocked_def empty_db_def bolt_def washer_def movement_def createProduct_def
      insert_product_def assign_product_def product_columns_def and_then_def varchar_def
      varchar_opt_def pg_text_def pg_text_opt_def int4_def int4_opt_def
      insert_inventory_def generated_def
      catch_unique_def createTransaction_def createTransaction_try_def
      insert_transaction_def assign_transaction_def update_inventory_def add_quantity_def
      quantityChange_def rollback_def Let_def)


section \<open>Creating a transaction\<close>




text \<open>What a successful run of the \<open>try\<close> block has checked and written.\<close>

lemma createTransaction_try_Inr:
  assumes "createTransaction_try now req tx = (Inr t, tx')"
  shows "(\<exists>p\<in>set (products tx). p_id p = ct_productId req) \<and>
         (\<forall>sid. ct_staffId req = Some sid \<longrightarrow> (\<exists>s\<in>set (staff tx). s_id s = sid)) \<and>
         tx' = tx\<lparr>inventory_transactions_id_seq := inventory_transactions_id_seq tx + 1,
                  inventory_transactions := inventory_transactions tx @ [t],
                  inventory := map (\<lambda>r. if i_productId r = ct_productId req
                                      then add_quantity now (quantityChange req) r else r)
                                   (inventory tx)\<rparr> \<and>
         t_id t = inventory_transactions_id_seq tx \<and>
         (\<exists>r. find (\<lambda>r. i_productId r = ct_productId req) (inventory tx) = Some r \<and>
              0 \<le> i_quantityOnHand r + quantityChange req) \<and>
         (\<forall>x\<in>set (inventory tx). i_productId x = ct_productId req \<longrightarrow>
              i_quantityOnHand x + quantityChange req \<le> 2147483647)"
  using assms
  unfolding createTransaction_try_def update_inventory_def insert_transaction_def Let_def
  by (auto split: option.splits if_splits prod.splits sum.splits
           simp: find_None_iff add_quantity_def generated_def list_all_iff int4_def
                 assign_transaction_def and_then_def)

lemma createTransaction_Inr:
  assumes "createTransaction now req d = (Inr t, d')"
  shows "createTransaction_try now req d = (Inr t, d')"
  using assms unfolding createTransaction_def
  by (auto split: prod.splits sum.splits)

lemma createTransaction_try_Inl:
  assumes "createTransaction_try now req tx = (Inl e, tx')"
  shows "inventory_id_seq tx' = inventory_id_seq tx \<and>
         (inventory_transactions_id_seq tx' = inventory_transactions_id_seq tx \<or>
          inventory_transactions_id_seq tx' = inventory_transactions_id_seq tx + 1)"
  using assms
  unfolding createTransaction_try_def update_inventory_def insert_transaction_def Let_def
  by (auto split: option.splits if_splits prod.splits sum.splits)

lemma createTransaction_Inl:
  assumes "createTransaction now req d = (Inl e, d')"
  shows "products d' = products d \<and> inventory d' = inventory d \<and>
         inventory_transactions d' = inventory_transactions d \<and>
         inventory_id_seq d' = inventory_id_seq d \<and>
         (inventory_transactions_id_seq d' = inventory_transactions_id_seq d \<or>
          inventory_transactions_id_seq d' = inventory_transactions_id_seq d + 1)"
proof -
  from assms obtain tx where tx: "createTransaction_try now req d = (Inl e, tx)"
    and d': "d' = rollback d tx"
    unfolding createTransaction_def by (auto split: prod.splits sum.splits)
  from createTransaction_try_Inl[OF tx] show ?thesis
    by (simp add: d' rollback_def)
qed

text \<open>A transaction is recorded only when its product exists and its staff member, if
  one is given, exists.\<close>

lemma createTransaction_recorded_only_if:
  assumes "createTransaction now req d = (Inr t, d')"
  shows "(\<exists>p\<in>set (products d). p_id p = ct_productId req) \<and>
         (\<forall>sid. ct_staffId req = Some sid \<longrightarrow> (\<exists>s\<in>set (staff d). s_id s = sid))"
  using createTransaction_try_Inr[OF createTransaction_Inr[OF assms]] by blast

text \<open>A missing product, or a missing staff member whose id passes the test
  \<open>if (req.staffId)\<close>, gives the not-found error and leaves the database as it was.\<close>

lemma createTransaction_not_found:
  assumes "\<not> (\<exists>p\<in>set (products d). p_id p = ct_productId req) \<or>
           truthy (ct_staffId req) \<and> \<not> (\<exists>s\<in>set (staff d). Some (s_id s) = ct_staffId req)"
  shows "\<exists>message. createTransaction now req d = (Inl (APIError NotFound message), d)"
proof (cases "find (\<lambda>p. p_id p = ct_productId req) (products d)")
  case None
  then show ?thesis
    by (simp add: createTransaction_def createTransaction_try_def rollback_def)
next
  case (Some p)
  then have "\<exists>p\<in>set (products d). p_id p = ct_productId req"
    by (auto dest: find_Some_set)
  with assms have "truthy (ct_staffId req)"
    and "find (\<lambda>s. Some (s_id s) = ct_staffId req) (staff d) = None"
    by (auto simp: find_None_iff)
  with Some show ?thesis
    by (simp add: createTransaction_def createTransaction_try_def rollback_def)
qed

text \<open>
  Claim C3. The claim asks for a not-found error whenever a staff id is given and no
  staff row has it. The staff id \<open>0\<close> does not pass the test \<open>if (req.staffId)\<close>, so the
  lookup is skipped and the \<open>INSERT\<close> runs into the foreign key of \<open>staff_id\<close>: the
  error of the database (SQLSTATE 23503) is rethrown in place of not-found. Nothing is
  recorded in that case either.
\<close>

theorem createTransaction_staff_zero:
  "createTransaction 8 (movement 1 RECEIVE 1 (Some 0)) stocked =
     (Inl (PgError ''23503''), stocked\<lparr>inventory_transactions_id_seq := 3\<rparr>)"
  by (simp add: stocked_eq movement_def createTransaction_def createTransaction_try_def
      insert_transaction_def assign_transaction_def and_then_def varchar_opt_def
      pg_text_def pg_text_opt_def int4_def rollback_def Let_def)

section \<open>Rows that do not exist\<close>

text \<open>The read and delete handlers answer a missing id with not-found.\<close>

lemma get_delete_missing_not_found:
  "\<not> (\<exists>p\<in>set (products d). p_id p = ident) \<Longrightarrow>
     getProduct ident d = Inl (APIError NotFound ''Product not found'') \<and>
     deleteProduct ident d = (Inl (APIError NotFound ''Product not found''), d)"
  "\<not> (\<exists>a\<in>set (assets d). a_id a = ident) \<Longrightarrow>
     getAsset ident d = Inl (APIError NotFound ''Asset not found'') \<and>
     deleteAsset ident d = (Inl (APIError NotFound ''Asset not found''), d)"
  "\<not> (\<exists>s\<in>set (staff d). s_id s = ident) \<Longrightarrow>
     getStaff ident d = Inl (APIError NotFound ''Staff member not found'') \<and>
     deleteStaff ident d = (Inl (APIError NotFound ''Staff member not found''), d)"
  unfolding getProduct_def deleteProduct_def delete_product_def getAsset_def deleteAsset_def
    delete_asset_def getStaff_def deleteStaff_def delete_staff_def
  by (auto simp: find_None_iff[THEN iffD2])

text \<open>The three update handlers throw not-found inside their \<open>try\<close>; the \<open>catch\<close>
  finds a code other than \<open>23505\<close> and answers with an internal error. So it does with
  the error of a value that its column cannot take.\<close>

lemma updateProduct_missing_internal:
  assumes "\<not> (\<exists>p\<in>set (products d). p_id p = up_id req)"
  shows "updateProduct now req d = (Inl (APIError Internal ''Failed to update product''), d)"
proof (cases "assign_product_update req")
  case (Inl error)
  then have "code error \<noteq> ''23505''"
    by (auto simp: assign_product_update_def dest!: and_then_error
          dest: product_columns_error pg_text_opt_error)
  with Inl show ?thesis
    by (simp add: updateProduct_def update_product_def catch_unique_def)
next
  case (Inr stored)
  with assms show ?thesis
    by (simp add: updateProduct_def update_product_def catch_unique_def
          find_None_iff[THEN iffD2] map_idI)
qed

lemma updateAsset_missing_internal:
  assumes "\<not> (\<exists>a\<in>set (assets d). a_id a = ua_id req)"
  shows "updateAsset now req d = (Inl (APIError Internal ''Failed to update asset''), d)"
proof (cases "assign_asset_update req")
  case (Inl error)
  then have "code error \<noteq> ''23505''"
    by (auto simp: assign_asset_update_def dest!: and_then_error
          dest: asset_columns_error pg_text_opt_error)
  with Inl show ?thesis
    by (simp add: updateAsset_def update_asset_def catch_unique_def)
next
  case (Inr stored)
  with assms show ?thesis
    by (simp add: updateAsset_def update_asset_def catch_unique_def
          find_None_iff[THEN iffD2] map_idI)
qed

lemma updateStaff_missing_internal:
  assumes "\<not> (\<exists>s\<in>set (staff d). s_id s = us_id req)"
  shows "updateStaff now req d =
           (Inl (APIError Internal ''Failed to update staff member''), d)"
proof (cases "assign_staff_update req")
  case (Inl error)
  then have "code error \<noteq> ''23505''"
    by (auto simp: assign_staff_update_def dest!: and_then_error dest: staff_columns_error)
  with Inl show ?thesis
    by (simp add: updateStaff_def update_staff_def catch_unique_def)
next
  case (Inr stored)
  with assms show ?thesis
    by (simp add: updateStaff_def update_staff_def catch_unique_def
          find_None_iff[THEN iffD2] map_idI)
qed

text \<open>
  Claim C4. Every operation that addresses a row by id should answer a missing id with
  not-found. \<open>updateProduct\<close> does not: for the id \<open>3\<close>, which no product has, it
  answers with the internal error \<open>Failed to update product\<close>.
\<close>

theorem updateProduct_missing_id:
  "updateProduct 8 (bolt_renamed\<lparr>up_id := 3\<rparr>) stocked =
     (Inl (APIError Internal ''Failed to update product''), stocked)"
  by (simp add: stocked_eq bolt_renamed_def updateProduct_def update_product_def
      assign_product_update_def product_columns_def and_then_def varchar_def varchar_opt_def
      pg_text_def pg_text_opt_def int4_def int4_opt_def catch_unique_def Let_def)

section \<open>Creating and updating a product\<close>

lemma createProduct_Inr:
  assumes "createProduct now req d = (Inr product, d')"
  shows "\<exists>stored. assign_product req = Inr stored \<and>
         (\<forall>p\<in>set (products d). p_id p \<noteq> products_id_seq d \<and> p_sku p \<noteq> cp_sku stored) \<and>
         (\<forall>i\<in>set (inventory d). i_id i \<noteq> inventory_id_seq d) \<and>
         product = \<lparr>p_id = products_id_seq d, p_name = cp_name stored,
                    p_description = cp_description stored, p_sku = cp_sku stored,
                    p_category = cp_category stored,
                    p_unitOfMeasure = cp_unitOfMeasure stored,
                    p_unitPrice = cp_unitPrice stored,
                    p_reorderLevel = cp_reorderLevel stored,
                    p_maxStockLevel = cp_maxStockLevel stored, p_createdAt = now,
                    p_updatedAt = now\<rparr> \<and>
         d' = d\<lparr>products_id_seq := products_id_seq d + 1,
                products := products d @ [product],
                inventory_id_seq := inventory_id_seq d + 1,
                inventory := inventory d @
                  [\<lparr>i_id = inventory_id_seq d, i_productId = p_id product,
                    i_quantityOnHand = 0, i_quantityReserved = 0, i_quantityAvailable = 0,
                    i_lastUpdated = now\<rparr>]\<rparr>"
  using assms
  unfolding createProduct_def insert_product_def insert_inventory_def Let_def generated_def
  by (auto split: if_splits sum.splits)

lemma createProduct_Inl:
  assumes "createProduct now req d = (Inl e, d')"
    and "\<forall>i\<in>set (inventory d). i_id i \<noteq> inventory_id_seq d"
  shows "d' = d \<or> d' = d\<lparr>products_id_seq := products_id_seq d + 1\<rparr>"
  using assms
  unfolding createProduct_def insert_product_def insert_inventory_def Let_def
  by (auto split: if_splits sum.splits)

text \<open>A successful update returns the row of the request's id, with the eight fields as
  the columns store them and \<open>updated_at\<close> set.\<close>

lemma updateProduct_Inr:
  assumes "updateProduct now req d = (Inr product, d')"
  shows "\<exists>stored. assign_product_update req = Inr stored \<and>
         p_id product = up_id req \<and> p_name product = up_name stored \<and>
         p_description product = up_description stored \<and> p_sku product = up_sku stored \<and>
         p_category product = up_category stored \<and>
         p_unitOfMeasure product = up_unitOfMeasure stored \<and>
         p_unitPrice product = up_unitPrice stored \<and>
         p_reorderLevel product = up_reorderLevel stored \<and>
         p_maxStockLevel product = up_maxStockLevel stored \<and> p_updatedAt product = now \<and>
         products d' = map (\<lambda>p. if p_id p = up_id req then set_product now stored p else p)
                           (products d)"
  using assms
  unfolding updateProduct_def update_product_def Let_def
  by (auto split: if_splits option.splits sum.splits simp: set_product_def
        dest: find_Some_set)

text \<open>
  Claim C5. Whatever \<open>updateProduct\<close> answers, the products table keeps its length;
  every row keeps its id and its \<open>created_at\<close>; every row with another id than the
  request's is unchanged; and the tables \<open>inventory\<close> and \<open>inventory_transactions\<close> are
  unchanged. (Besides the eight fields of the request the statement sets \<open>updated_at\<close>.)
\<close>

theorem updateProduct_frame:
  assumes "updateProduct now req d = (result, d')"
  shows "length (products d') = length (products d) \<and>
         (\<forall>k<length (products d).
            p_id (products d' ! k) = p_id (products d ! k) \<and>
            p_createdAt (products d' ! k) = p_createdAt (products d ! k) \<and>
            (p_id (products d ! k) \<noteq> up_id req \<longrightarrow> products d' ! k = products d ! k)) \<and>
         inventory d' = inventory d \<and>
         inventory_transactions d' = inventory_transactions d"
  using assms
  unfolding updateProduct_def update_product_def Let_def set_product_def
  by (auto split: if_splits option.splits sum.splits)

lemma rename_bolt:
  "updateProduct 8 bolt_renamed stocked =
     (Inr \<lparr>p_id = 1, p_name = ''Bolt M8x40'', p_description = Some ''Hex bolt'',
           p_sku = ''B-8-40'', p_category = Some ''Fasteners'', p_unitOfMeasure = ''box'',
           p_unitPrice = 3, p_reorderLevel = 20, p_maxStockLevel = None, p_createdAt = 5,
           p_updatedAt = 8\<rparr>,
      stocked\<lparr>products :=
        [\<lparr>p_id = 1, p_name = ''Bolt M8x40'', p_description = Some ''Hex bolt'',
           p_sku = ''B-8-40'', p_category = Some ''Fasteners'', p_unitOfMeasure = ''box'',
           p_unitPrice = 3, p_reorderLevel = 20, p_maxStockLevel = None, p_createdAt = 5,
           p_updatedAt = 8\<rparr>,
         \<lparr>p_id = 2, p_name = ''Washer'', p_description = Some ''Flat washer'', p_sku = ''W-8'',
          p_category = None, p_unitOfMeasure = ''pcs'', p_unitPrice = 1 / 4,
          p_reorderLevel = 2, p_maxStockLevel = None, p_createdAt = 6, p_updatedAt = 6\<rparr>]\<rparr>)"
  by (simp add: stocked_eq bolt_renamed_def updateProduct_def update_product_def
      assign_product_update_def product_columns_def and_then_def varchar_def varchar_opt_def
      pg_text_def pg_text_opt_def int4_def int4_opt_def set_product_def Let_def)

theorem updateProduct_frame_witness:
  "p_name (products (snd (updateProduct 8 bolt_renamed stocked)) ! 0) = ''Bolt M8x40'' \<and>
   p_id (products (snd (updateProduct 8 bolt_renamed stocked)) ! 0) = 1 \<and>
   p_createdAt (products (snd (updateProduct 8 bolt_renamed stocked)) ! 0) = 5 \<and>
   products (snd (updateProduct 8 bolt_renamed stocked)) ! 1 = products stocked ! 1 \<and>
   inventory (snd (updateProduct 8 bolt_renamed stocked)) = inventory stocked \<and>
   inventory_transactions (snd (updateProduct 8 bolt_renamed stocked)) =
     inventory_transactions stocked"
proof -
  have len: "length (products stocked) = 2"
    and ids: "p_id (products stocked ! 0) = 1" "p_id (products stocked ! 1) = 2"
    and created: "p_createdAt (products stocked ! 0) = 5"
    by (simp_all add: stocked_eq)
  have req: "up_id bolt_renamed = 1"
    by (simp add: bolt_renamed_def)
  have name: "p_name (products (snd (updateProduct 8 bolt_renamed stocked)) ! 0) = ''Bolt M8x40''"
    by (simp add: rename_bolt)
  from updateProduct_frame[OF rename_bolt]
  have frame: "\<forall>k<2.
            p_id (products (snd (updateProduct 8 bolt_renamed stocked)) ! k) = p_id (products stocked ! k) \<and>
            p_createdAt (products (snd (updateProduct 8 bolt_renamed stocked)) ! k) = p_createdAt (products stocked ! k) \<and>
            (p_id (products stocked ! k) \<noteq> 1 \<longrightarrow> products (snd (updateProduct 8 bolt_renamed stocked)) ! k = products stocked ! k)"
    and rest: "inventory (snd (updateProduct 8 bolt_renamed stocked)) = inventory stocked"
      "inventory_transactions (snd (updateProduct 8 bolt_renamed stocked)) =
         inventory_transactions stocked"
    unfolding rename_bolt snd_conv len req by blast+
  from frame have "p_id (products (snd (updateProduct 8 bolt_renamed stocked)) ! 0) = 1"
    and "p_createdAt (products (snd (updateProduct 8 bolt_renamed stocked)) ! 0) = 5"
    and "products (snd (updateProduct 8 bolt_renamed stocked)) ! 1 = products stocked ! 1"
    using ids created by auto
  with name rest show ?thesis by simp
qed

lemma create_nut:
  "createProduct 9 nut stocked =
     (Inr \<lparr>p_id = 3, p_name = ''Nut M8'', p_description = None, p_sku = ''N-8'',
           p_category = Some ''Hardware'', p_unitOfMeasure = ''pcs'', p_unitPrice = 1 / 2,
           p_reorderLevel = 5, p_maxStockLevel = None, p_createdAt = 9, p_updatedAt = 9\<rparr>,
      stocked\<lparr>products_id_seq := 4,
        products := products stocked @
          [\<lparr>p_id = 3, p_name = ''Nut M8'', p_description = None, p_sku = ''N-8'',
            p_category = Some ''Hardware'', p_unitOfMeasure = ''pcs'', p_unitPrice = 1 / 2,
            p_reorderLevel = 5, p_maxStockLevel = None, p_createdAt = 9, p_updatedAt = 9\<rparr>],
        inventory_id_seq := 4,
        inventory := inventory stocked @
          [\<lparr>i_id = 3, i_productId = 3, i_quantityOnHand = 0, i_quantityReserved = 0,
            i_quantityAvailable = 0, i_lastUpdated = 9\<rparr>]\<rparr>)"
  by (simp add: stocked_eq nut_def createProduct_def insert_product_def assign_product_def
      product_columns_def and_then_def varchar_def varchar_opt_def pg_text_def
      pg_text_opt_def int4_def int4_opt_def
      insert_inventory_def generated_def Let_def)

text \<open>The reports before and after, with the sum taken exactly.\<close>

lemma report_stocked:
  "getInventoryReport exact_sum stocked =
     Inr \<lparr>totalProducts = 2, totalValue = 10, lowStockItems = 1, outOfStockItems = 1\<rparr>"
  by (simp add: stocked_eq getInventoryReport_def total_value_def sum_values_def
      categories_query_def total_products_count_def low_stock_count_def
      out_of_stock_count_def products_join_inventory_def exact_sum_def or_zero_def Let_def)

lemma report_nut:
  "getInventoryReport exact_sum (snd (createProduct 9 nut stocked)) =
     Inr \<lparr>totalProducts = 3, totalValue = 10, lowStockItems = 1, outOfStockItems = 2\<rparr>"
  unfolding create_nut snd_conv
  by (simp add: stocked_eq getInventoryReport_def total_value_def sum_values_def
      categories_query_def total_products_count_def low_stock_count_def
      out_of_stock_count_def products_join_inventory_def exact_sum_def or_zero_def Let_def)

text \<open>The report's field \<open>outOfStockItems\<close> is the count of the fourth query.\<close>

lemma report_out_of_stock:
  "getInventoryReport sum_of d = Inr report \<Longrightarrow> outOfStockItems report = out_of_stock_count d"
  by (auto simp: getInventoryReport_def or_zero_def Let_def split: sum.splits)

text \<open>
  Claim C9. When \<open>createProduct\<close> succeeds, the inventory table is the old one with one
  row added, for the new product, with quantity on hand and quantity reserved \<open>0\<close>.
  Where every earlier inventory row belongs to a product, it is the only row of the new
  product, and the report's count of out-of-stock items has grown by one: the count of
  the query, and the field \<open>outOfStockItems\<close> of any two reports that the handler
  returns before and after.
\<close>

theorem createProduct_inventory_row:
  assumes created: "createProduct now req d = (Inr product, d')"
    and fk: "\<forall>i\<in>set (inventory d). \<exists>p\<in>set (products d). p_id p = i_productId i"
  shows "inventory d' = inventory d @
           [\<lparr>i_id = inventory_id_seq d, i_productId = p_id product, i_quantityOnHand = 0,
             i_quantityReserved = 0, i_quantityAvailable = 0, i_lastUpdated = now\<rparr>] \<and>
         filter (\<lambda>i. i_productId i = p_id product) (inventory d') =
           [\<lparr>i_id = inventory_id_seq d, i_productId = p_id product, i_quantityOnHand = 0,
             i_quantityReserved = 0, i_quantityAvailable = 0, i_lastUpdated = now\<rparr>] \<and>
         out_of_stock_count d' = out_of_stock_count d + 1 \<and>
         (\<forall>sum_of before after.
            getInventoryReport sum_of d = Inr before \<longrightarrow>
            getInventoryReport sum_of d' = Inr after \<longrightarrow>
            outOfStockItems after = outOfStockItems before + 1)"
proof -
  from createProduct_Inr[OF created]
  have new_id: "\<forall>p\<in>set (products d). p_id p \<noteq> p_id product"
    and row: "inventory d' = inventory d @
                  [\<lparr>i_id = inventory_id_seq d, i_productId = p_id product,
                    i_quantityOnHand = 0, i_quantityReserved = 0, i_quantityAvailable = 0,
                    i_lastUpdated = now\<rparr>]"
    by auto
  with fk have "\<forall>i\<in>set (inventory d). i_productId i \<noteq> p_id product"
    by metis
  then have none: "filter (\<lambda>i. i_productId i = p_id product) (inventory d) = []"
    by (simp add: filter_empty_conv)
  have grown: "out_of_stock_count d' = out_of_stock_count d + 1"
    by (simp add: row none out_of_stock_count_def)
  then have "\<forall>sum_of before after.
            getInventoryReport sum_of d = Inr before \<longrightarrow>
            getInventoryReport sum_of d' = Inr after \<longrightarrow>
            outOfStockItems after = outOfStockItems before + 1"
    by (simp add: report_out_of_stock)
  with grown show ?thesis
    by (simp add: row none)
qed

theorem createProduct_inventory_row_witness:
  "fst (createProduct 9 nut stocked) =
     Inr \<lparr>p_id = 3, p_name = ''Nut M8'', p_description = None, p_sku = ''N-8'',
           p_category = Some ''Hardware'', p_unitOfMeasure = ''pcs'', p_unitPrice = 1 / 2,
           p_reorderLevel = 5, p_maxStockLevel = None, p_createdAt = 9, p_updatedAt = 9\<rparr> \<and>
   filter (\<lambda>i. i_productId i = 3) (inventory (snd (createProduct 9 nut stocked))) =
     [\<lparr>i_id = 3, i_productId = 3, i_quantityOnHand = 0, i_quantityReserved = 0,
       i_quantityAvailable = 0, i_lastUpdated = 9\<rparr>] \<and>
   out_of_stock_count stocked = 1 \<and>
   out_of_stock_count (snd (createProduct 9 nut stocked)) = 2 \<and>
   getInventoryReport exact_sum stocked =
     Inr \<lparr>totalProducts = 2, totalValue = 10, lowStockItems = 1, outOfStockItems = 1\<rparr> \<and>
   getInventoryReport exact_sum (snd (createProduct 9 nut stocked)) =
     Inr \<lparr>totalProducts = 3, totalValue = 10, lowStockItems = 1, outOfStockItems = 2\<rparr>"
proof -
  have fk: "\<forall>i\<in>set (inventory stocked). \<exists>p\<in>set (products stocked). p_id p = i_productId i"
    by (simp add: stocked_eq)
  have seq: "inventory_id_seq stocked = 3"
    by (simp add: stocked_eq)
  have out: "out_of_stock_count stocked = 1"
    by (simp add: stocked_eq out_of_stock_count_def)
  show ?thesis
    using createProduct_inventory_row[OF create_nut fk]
    using report_stocked report_nut
    unfolding create_nut fst_conv snd_conv
    by (simp add: seq out)
qed

text \<open>
  Claim C6. When \<open>createProduct\<close> succeeds, the product it returns has the description,
  unit price, reorder level and maximum stock level of the request, and \<open>getProduct\<close>
  with the returned id, on the database \<open>createProduct\<close> left, returns that same
  product. It has the name, sku, category and unit of measure of the request where these
  are no longer than their columns (255, 100, 100 and 50 characters).
\<close>

theorem createProduct_roundtrip:
  assumes "createProduct now req d = (Inr product, d')"
  shows "p_description product = cp_description req \<and>
         p_unitPrice product = cp_unitPrice req \<and>
         p_reorderLevel product = cp_reorderLevel req \<and>
         p_maxStockLevel product = cp_maxStockLevel req \<and>
         getProduct (p_id product) d' = Inr product \<and>
         (product_fits req \<longrightarrow>
            p_name product = cp_name req \<and> p_sku product = cp_sku req \<and>
            p_category product = cp_category req \<and>
            p_unitOfMeasure product = cp_unitOfMeasure req)"
proof -
  from createProduct_Inr[OF assms] obtain stored where
    stored: "assign_product req = Inr stored"
    and fresh: "\<forall>p\<in>set (products d). p_id p \<noteq> products_id_seq d"
    and product: "product = \<lparr>p_id = products_id_seq d, p_name = cp_name stored,
                    p_description = cp_description stored, p_sku = cp_sku stored,
                    p_category = cp_category stored,
                    p_unitOfMeasure = cp_unitOfMeasure stored,
                    p_unitPrice = cp_unitPrice stored,
                    p_reorderLevel = cp_reorderLevel stored,
                    p_maxStockLevel = cp_maxStockLevel stored, p_createdAt = now,
                    p_updatedAt = now\<rparr>"
    and rows: "products d' = products d @ [product]"
    by auto
  from stored have same: "cp_description stored = cp_description req"
    "cp_unitPrice stored = cp_unitPrice req" "cp_reorderLevel stored = cp_reorderLevel req"
    "cp_maxStockLevel stored = cp_maxStockLevel req"
    by (auto simp: assign_product_def and_then_def split: sum.splits dest: pg_text_opt_Inr)
  from fresh have "find (\<lambda>p. p_id p = products_id_seq d) (products d) = None"
    by (simp add: find_None_iff)
  then have get: "getProduct (p_id product) d' = Inr product"
    by (simp add: getProduct_def rows find_snoc product)
  have "product_fits req \<longrightarrow> stored = req"
    using assign_product_fits[OF stored] by blast
  with same get show ?thesis
    by (auto simp: product)
qed

theorem createProduct_roundtrip_witness:
  "fst (createProduct 9 nut stocked) =
     Inr \<lparr>p_id = 3, p_name = ''Nut M8'', p_description = None, p_sku = ''N-8'',
           p_category = Some ''Hardware'', p_unitOfMeasure = ''pcs'', p_unitPrice = 1 / 2,
           p_reorderLevel = 5, p_maxStockLevel = None, p_createdAt = 9, p_updatedAt = 9\<rparr> \<and>
   product_fits nut \<and>
   getProduct 3 (snd (createProduct 9 nut stocked)) =
     Inr \<lparr>p_id = 3, p_name = cp_name nut, p_description = cp_description nut,
           p_sku = cp_sku nut, p_category = cp_category nut,
           p_unitOfMeasure = cp_unitOfMeasure nut, p_unitPrice = cp_unitPrice nut,
           p_reorderLevel = cp_reorderLevel nut, p_maxStockLevel = cp_maxStockLevel nut,
           p_createdAt = 9, p_updatedAt = 9\<rparr>"
proof -
  have fits: "product_fits nut"
    by (simp add: product_fits_def nut_def)
  show ?thesis
    using createProduct_roundtrip[OF create_nut] fits
    unfolding create_nut fst_conv snd_conv
    by (simp add: nut_def)
qed

text \<open>A unit of measure of 53 characters, of which the last 50 are spaces: the product is
  created, and its unit of measure is the first 50 characters.\<close>

theorem createProduct_roundtrip_counterexample:
  "fst (createProduct 9 nut_padded stocked) =
     Inr \<lparr>p_id = 3, p_name = ''Nut M8'', p_description = None, p_sku = ''N-8'',
           p_category = Some ''Hardware'',
           p_unitOfMeasure = ''pcs                                               '',
           p_unitPrice = 1 / 2, p_reorderLevel = 5, p_maxStockLevel = None, p_createdAt = 9,
           p_updatedAt = 9\<rparr> \<and>
   cp_unitOfMeasure nut_padded = ''pcs                                                  '' \<and>
   length (cp_unitOfMeasure nut_padded) = 53 \<and>
   length ''pcs                                               '' = 50"
  by (simp add: stocked_eq nut_padded_def nut_def createProduct_def insert_product_def
      assign_product_def product_columns_def and_then_def varchar_def varchar_opt_def
      pg_text_def pg_text_opt_def int4_def int4_opt_def insert_inventory_def generated_def
      Let_def)

section \<open>What the handlers write\<close>

lemma updateProduct_tables:
  assumes "updateProduct now req d = (result, d')"
  shows "map p_id (products d') = map p_id (products d) \<and> inventory d' = inventory d \<and>
         inventory_transactions d' = inventory_transactions d \<and>
         inventory_id_seq d' = inventory_id_seq d \<and>
         inventory_transactions_id_seq d' = inventory_transactions_id_seq d"
  using assms
  unfolding updateProduct_def update_product_def Let_def set_product_def
  by (auto split: if_splits option.splits sum.splits)

lemma deleteProduct_tables:
  assumes "deleteProduct ident d = (result, d')"
  shows "d' = d \<or>
         (products d' = filter (\<lambda>p. p_id p \<noteq> ident) (products d) \<and>
          inventory d' = filter (\<lambda>i. i_productId i \<noteq> ident) (inventory d) \<and>
          inventory_transactions d' =
            filter (\<lambda>t. t_productId t \<noteq> ident) (inventory_transactions d) \<and>
          inventory_id_seq d' = inventory_id_seq d \<and>
          inventory_transactions_id_seq d' = inventory_transactions_id_seq d)"
  using assms
  unfolding deleteProduct_def delete_product_def
  by (auto split: option.splits)

text \<open>The asset and staff handlers write neither products nor inventory nor transactions.\<close>

lemma asset_handlers_same_stock:
  "same_stock d (snd (createAsset now careq d))"
  "same_stock d (snd (updateAsset now uareq d))"
  "same_stock d (snd (deleteAsset ident d))"
  "same_stock d (snd (createMaintenance now cmreq d))"
  unfolding same_stock_def createAsset_def insert_asset_def updateAsset_def update_asset_def
    deleteAsset_def delete_asset_def createMaintenance_def insert_maintenance_def Let_def
  by (auto split: option.splits sum.splits)

lemma staff_handlers_same_stock:
  "same_stock d (snd (createStaff now csreq d))"
  "same_stock d (snd (updateStaff now usreq d))"
  "same_stock d (snd (deleteStaff ident d))"
  unfolding same_stock_def createStaff_def insert_staff_def updateStaff_def update_staff_def
    deleteStaff_def delete_staff_def Let_def
  by (auto split: option.splits sum.splits)

section \<open>Every handler keeps the database consistent\<close>

lemma same_stock_consistent: "same_stock d d' \<Longrightarrow> consistent d \<Longrightarrow> consistent d'"
  unfolding same_stock_def consistent_def stock_nonnegative_def by simp

lemma same_stock_available:
  "same_stock d d' \<Longrightarrow> available_generated d \<Longrightarrow> available_generated d'"
  unfolding same_stock_def available_generated_def by simp

lemma consistent_empty: "consistent empty_db"
  by (simp add: consistent_def stock_nonnegative_def empty_db_def)

lemma consistent_createProduct:
  assumes "consistent d"
  shows "consistent (snd (createProduct now req d))"
proof (cases "createProduct now req d")
  case (Pair result d')
  from assms have fresh: "\<forall>i\<in>set (inventory d). i_id i \<noteq> inventory_id_seq d"
    unfolding consistent_def by auto
  show ?thesis
  proof (cases result)
    case (Inl e)
    with Pair createProduct_Inl[OF _ fresh]
    have "d' = d \<or> d' = d\<lparr>products_id_seq := products_id_seq d + 1\<rparr>"
      by blast
    then have "consistent d'"
    proof
      assume "d' = d"
      with assms show ?thesis by simp
    next
      assume "d' = d\<lparr>products_id_seq := products_id_seq d + 1\<rparr>"
      with assms show ?thesis
        by (simp add: consistent_def stock_nonnegative_def)
    qed
    with Pair show ?thesis by simp
  next
    case (Inr product)
    with Pair have c: "createProduct now req d = (Inr product, d')" by simp
    from createProduct_Inr[OF c] have "p_id product \<notin> p_id ` set (products d)"
      and p': "products d' = products d @ [product]"
      and i': "inventory d' = inventory d @
                  [\<lparr>i_id = inventory_id_seq d, i_productId = p_id product,
                    i_quantityOnHand = 0, i_quantityReserved = 0, i_quantityAvailable = 0,
                    i_lastUpdated = now\<rparr>]"
      and s': "inventory_id_seq d' = inventory_id_seq d + 1"
        "inventory_transactions_id_seq d' = inventory_transactions_id_seq d"
        "inventory_transactions d' = inventory_transactions d"
      by auto
    with assms have none: "p_id product \<notin> i_productId ` set (inventory d)"
      unfolding consistent_def by simp
    have "consistent d'"
      using assms none unfolding consistent_def stock_nonnegative_def p' i' s'
      by auto
    with Pair show ?thesis by simp
  qed
qed

lemma consistent_updateProduct:
  assumes "consistent d"
  shows "consistent (snd (updateProduct now req d))"
proof (cases "updateProduct now req d")
  case (Pair result d')
  from updateProduct_tables[OF Pair]
  have m: "map p_id (products d') = map p_id (products d)"
    and rest: "inventory d' = inventory d" "inventory_transactions d' = inventory_transactions d"
      "inventory_id_seq d' = inventory_id_seq d"
      "inventory_transactions_id_seq d' = inventory_transactions_id_seq d"
    by simp_all
  have "set (map p_id (products d')) = set (map p_id (products d))"
    by (simp only: m)
  then have ids: "p_id ` set (products d') = p_id ` set (products d)"
    by simp
  have "consistent d'"
    using assms unfolding consistent_def stock_nonnegative_def rest ids by simp
  with Pair show ?thesis by simp
qed

lemma image_filter_key: "f ` set (filter (\<lambda>x. f x \<noteq> k) xs) = f ` set xs - {k}"
  by auto

lemma consistent_deleteProduct:
  assumes "consistent d"
  shows "consistent (snd (deleteProduct ident d))"
proof (cases "deleteProduct ident d")
  case (Pair result d')
  from deleteProduct_tables[OF Pair] show ?thesis
  proof
    assume "d' = d"
    with assms Pair show ?thesis by simp
  next
    assume t: "products d' = filter (\<lambda>p. p_id p \<noteq> ident) (products d) \<and>
          inventory d' = filter (\<lambda>i. i_productId i \<noteq> ident) (inventory d) \<and>
          inventory_transactions d' =
            filter (\<lambda>t. t_productId t \<noteq> ident) (inventory_transactions d) \<and>
          inventory_id_seq d' = inventory_id_seq d \<and>
          inventory_transactions_id_seq d' = inventory_transactions_id_seq d"
    have ids: "i_productId ` set (inventory d') = p_id ` set (products d')"
      using assms unfolding consistent_def by (simp only: t image_filter_key)
    have "consistent d'"
      using assms ids unfolding consistent_def stock_nonnegative_def
      by (simp add: t distinct_map_filter)
    with Pair show ?thesis by simp
  qed
qed

lemma consistent_createTransaction:
  assumes "consistent d"
  shows "consistent (snd (createTransaction now req d))"
proof (cases "createTransaction now req d")
  case (Pair result d')
  show ?thesis
  proof (cases result)
    case (Inl e)
    with Pair createTransaction_Inl[of now req d e d'] assms
    have "consistent d'"
      unfolding consistent_def stock_nonnegative_def by auto
    with Pair show ?thesis by simp
  next
    case (Inr t)
    with Pair have c: "createTransaction_try now req d = (Inr t, d')"
      by (simp add: createTransaction_Inr)
    note r = createTransaction_try_Inr[OF c]
    from r obtain r0 where r0: "find (\<lambda>r. i_productId r = ct_productId req) (inventory d) = Some r0"
      and ok: "0 \<le> i_quantityOnHand r0 + quantityChange req" by blast
    from r have top: "\<forall>x\<in>set (inventory d). i_productId x = ct_productId req \<longrightarrow>
              i_quantityOnHand x + quantityChange req \<le> 2147483647"
      by blast
    from assms have dist: "distinct (map i_productId (inventory d))"
      unfolding consistent_def by blast
    have only: "\<And>x. x \<in> set (inventory d) \<Longrightarrow> i_productId x = ct_productId req \<Longrightarrow> x = r0"
      using distinct_find_unique[OF dist r0] by blast
    let ?g = "\<lambda>r. if i_productId r = ct_productId req
                   then add_quantity now (quantityChange req) r else r"
    from r have p': "products d' = products d"
      and i': "inventory d' = map ?g (inventory d)"
      and t': "inventory_transactions d' = inventory_transactions d @ [t]"
      and s': "inventory_id_seq d' = inventory_id_seq d"
        "inventory_transactions_id_seq d' = inventory_transactions_id_seq d + 1"
      and tid: "t_id t = inventory_transactions_id_seq d"
      by simp_all
    have keep: "map i_productId (inventory d') = map i_productId (inventory d)"
      and keep_id: "map i_id (inventory d') = map i_id (inventory d)"
      unfolding i' by (simp_all add: add_quantity_def generated_def)
    have "set (map i_productId (inventory d')) = set (map i_productId (inventory d))"
      by (simp only: keep)
    then have keep_set: "i_productId ` set (inventory d') = i_productId ` set (inventory d)"
      by simp
    have "\<forall>x \<in> set (map i_id (inventory d')). x < inventory_id_seq d"
      unfolding keep_id using assms by (simp add: consistent_def)
    then have k1: "\<forall>i \<in> set (inventory d'). i_id i < inventory_id_seq d'"
      by (simp add: s')
    from assms tid
    have k2: "\<forall>t \<in> set (inventory_transactions d'). t_id t < inventory_transactions_id_seq d'"
      unfolding consistent_def t' s' by auto
    have "0 \<le> i_quantityOnHand (?g x)" if "x \<in> set (inventory d)" for x
    proof (cases "i_productId x = ct_productId req")
      case True
      with only[OF that] ok show ?thesis
        by (simp add: add_quantity_def generated_def)
    next
      case False
      with that assms show ?thesis
        by (simp add: consistent_def stock_nonnegative_def)
    qed
    then have k5: "stock_nonnegative d'"
      unfolding stock_nonnegative_def i' set_map by blast
    have "i_quantityOnHand (?g x) \<le> 2147483647 \<and> i_quantityReserved (?g x) = 0"
      if "x \<in> set (inventory d)" for x
    proof (cases "i_productId x = ct_productId req")
      case True
      with that top assms show ?thesis
        by (simp add: add_quantity_def generated_def consistent_def)
    next
      case False
      with that assms show ?thesis
        by (simp add: consistent_def)
    qed
    then have k6: "\<forall>i \<in> set (inventory d').
                     i_quantityOnHand i \<le> 2147483647 \<and> i_quantityReserved i = 0"
      unfolding i' set_map by blast
    have "consistent d'"
      using assms k1 k2 k5 k6 unfolding consistent_def keep keep_set p' by simp
    with Pair show ?thesis by simp
  qed
qed

lemma consistent_exec: "consistent d \<Longrightarrow> consistent (exec c d)"
  by (cases c)
     (simp_all add: consistent_createProduct consistent_updateProduct
        consistent_deleteProduct consistent_createTransaction
        same_stock_consistent[OF asset_handlers_same_stock(1)]
        same_stock_consistent[OF asset_handlers_same_stock(2)]
        same_stock_consistent[OF asset_handlers_same_stock(3)]
        same_stock_consistent[OF asset_handlers_same_stock(4)]
        same_stock_consistent[OF staff_handlers_same_stock(1)]
        same_stock_consistent[OF staff_handlers_same_stock(2)]
        same_stock_consistent[OF staff_handlers_same_stock(3)])

lemma consistent_run: "consistent d \<Longrightarrow> consistent (run cs d)"
  by (induction cs arbitrary: d) (simp_all add: consistent_exec)

section \<open>The guard of \<open>createTransaction\<close>\<close>










section \<open>The generated column\<close>

lemma available_createProduct:
  "available_generated d \<Longrightarrow> available_generated (snd (createProduct now req d))"
  unfolding createProduct_def insert_product_def insert_inventory_def Let_def
    available_generated_def generated_def
  by (auto split: if_splits sum.splits)

lemma available_updateProduct:
  "available_generated d \<Longrightarrow> available_generated (snd (updateProduct now req d))"
  using updateProduct_tables[OF surjective_pairing, of now req d]
  unfolding available_generated_def by simp

lemma available_deleteProduct:
  "available_generated d \<Longrightarrow> available_generated (snd (deleteProduct ident d))"
  using deleteProduct_tables[OF surjective_pairing, of ident d]
  unfolding available_generated_def by auto

lemma available_createTransaction:
  assumes "available_generated d"
  shows "available_generated (snd (createTransaction now req d))"
proof (cases "createTransaction now req d")
  case (Pair result d')
  show ?thesis
  proof (cases result)
    case (Inl e)
    with Pair createTransaction_Inl[of now req d e d'] assms show ?thesis
      unfolding available_generated_def by simp
  next
    case (Inr t)
    with Pair have "createTransaction_try now req d = (Inr t, d')"
      by (simp add: createTransaction_Inr)
    from createTransaction_try_Inr[OF this]
    have "inventory d' = map (\<lambda>r. if i_productId r = ct_productId req
                                    then add_quantity now (quantityChange req) r else r)
                                 (inventory d)"
      by simp
    with assms Pair show ?thesis
      unfolding available_generated_def
      by (auto simp: add_quantity_def generated_def)
  qed
qed

lemma available_exec: "available_generated d \<Longrightarrow> available_generated (exec c d)"
  by (cases c)
     (simp_all add: available_createProduct available_updateProduct
        available_deleteProduct available_createTransaction
        same_stock_available[OF asset_handlers_same_stock(1)]
        same_stock_available[OF asset_handlers_same_stock(2)]
        same_stock_available[OF asset_handlers_same_stock(3)]
        same_stock_available[OF asset_handlers_same_stock(4)]
        same_stock_available[OF staff_handlers_same_stock(1)]
        same_stock_available[OF staff_handlers_same_stock(2)]
        same_stock_available[OF staff_handlers_same_stock(3)])

lemma available_run: "available_generated d \<Longrightarrow> available_generated (run cs d)"
  by (induction cs arbitrary: d) (simp_all add: available_exec)

text \<open>
  Claim C8. In every state reached from the empty database by a sequence of calls,
  every inventory row has \<open>quantity_available = quantity_on_hand - quantity_reserved\<close>;
  and every single call, among them those that write \<open>quantity_on_hand\<close>, keeps that
  true of any database of which it is true.
\<close>

theorem available_quantity_generated:
  "available_generated (run cs empty_db) \<and>
   (available_generated d \<longrightarrow> available_generated (exec c d))"
proof -
  have "available_generated empty_db"
    by (simp add: available_generated_def empty_db_def)
  then show ?thesis
    using available_run available_exec by blast
qed

lemma receive_two:
  "exec (CreateTransaction 8 (movement 1 RECEIVE 2 None)) stocked =
     stocked\<lparr>inventory_transactions_id_seq := 3,
        inventory_transactions := inventory_transactions stocked @
          [\<lparr>t_id = 2, t_productId = 1, t_transactionType = RECEIVE, t_quantity = 2,
           t_referenceNumber = None, t_notes = None, t_createdAt = 8, t_createdBy = None,
           t_staffId = None\<rparr>],
        inventory := [\<lparr>i_id = 1, i_productId = 1, i_quantityOnHand = 6, i_quantityReserved = 0,
          i_quantityAvailable = 6, i_lastUpdated = 8\<rparr>,
         \<lparr>i_id = 2, i_productId = 2, i_quantityOnHand = 0, i_quantityReserved = 0,
          i_quantityAvailable = 0, i_lastUpdated = 6\<rparr>]\<rparr>"
  by (simp add: stocked_eq movement_def createTransaction_def createTransaction_try_def
      insert_transaction_def assign_transaction_def and_then_def varchar_opt_def
      pg_text_opt_def int4_def update_inventory_def add_quantity_def generated_def
      quantityChange_def Let_def)

theorem available_quantity_generated_witness:
  "available_generated stocked \<and>
   available_generated (exec (CreateTransaction 8 (movement 1 RECEIVE 2 None)) stocked) \<and>
   map i_quantityAvailable
     (inventory (exec (CreateTransaction 8 (movement 1 RECEIVE 2 None)) stocked)) = [6, 0]"
proof -
  from available_quantity_generated[of
      "[CreateProduct 5 bolt, CreateProduct 6 washer,
        CreateTransaction 7 (movement 1 RECEIVE 4 None)]"
      stocked "CreateTransaction 8 (movement 1 RECEIVE 2 None)"]
  have "available_generated stocked"
    and "available_generated (exec (CreateTransaction 8 (movement 1 RECEIVE 2 None)) stocked)"
    unfolding stocked_def[symmetric] by blast+
  moreover have "map i_quantityAvailable
     (inventory (exec (CreateTransaction 8 (movement 1 RECEIVE 2 None)) stocked)) = [6, 0]"
    unfolding receive_two by simp
  ultimately show ?thesis by blast
qed

section \<open>Stock is never negative\<close>

text \<open>
  Claim C2. In every state reached from the empty database by a sequence of calls of
  the writing handlers (products, transactions, assets, maintenance, staff), no
  inventory row has a negative quantity on hand.
\<close>

theorem stock_never_negative: "stock_nonnegative (run cs empty_db)"
  using consistent_run[OF consistent_empty, of cs] by (simp add: consistent_def)

lemma rejected_issue:
  "run [CreateProduct 5 bolt, CreateProduct 6 washer,
        CreateTransaction 7 (movement 1 RECEIVE 4 None),
        CreateTransaction 8 (movement 1 ISSUE 9 None)] empty_db =
   stocked\<lparr>inventory_transactions_id_seq := 3\<rparr>"
proof -
  have "run [CreateProduct 5 bolt, CreateProduct 6 washer,
        CreateTransaction 7 (movement 1 RECEIVE 4 None),
        CreateTransaction 8 (movement 1 ISSUE 9 None)] empty_db =
        exec (CreateTransaction 8 (movement 1 ISSUE 9 None)) stocked"
    by (simp add: stocked_def)
  also have "\<dots> = stocked\<lparr>inventory_transactions_id_seq := 3\<rparr>"
    by (simp add: stocked_eq movement_def createTransaction_def createTransaction_try_def
        insert_transaction_def assign_transaction_def and_then_def varchar_opt_def
        pg_text_opt_def int4_def update_inventory_def add_quantity_def generated_def
        quantityChange_def rollback_def Let_def)
  finally show ?thesis .
qed

theorem stock_never_negative_witness:
  "map i_quantityOnHand
     (inventory (run [CreateProduct 5 bolt, CreateProduct 6 washer,
                      CreateTransaction 7 (movement 1 RECEIVE 4 None),
                      CreateTransaction 8 (movement 1 ISSUE 9 None)] empty_db)) = [4, 0] \<and>
   stock_nonnegative
     (run [CreateProduct 5 bolt, CreateProduct 6 washer,
           CreateTransaction 7 (movement 1 RECEIVE 4 None),
           CreateTransaction 8 (movement 1 ISSUE 9 None)] empty_db)"
proof -
  have "map i_quantityOnHand (inventory (stocked\<lparr>inventory_transactions_id_seq := 3\<rparr>)) = [4, 0]"
    by (simp add: stocked_eq)
  with stock_never_negative[of "[CreateProduct 5 bolt, CreateProduct 6 washer,
           CreateTransaction 7 (movement 1 RECEIVE 4 None),
           CreateTransaction 8 (movement 1 ISSUE 9 None)]"]
  show ?thesis
    by (simp only: rejected_issue simp_thms)
qed

section \<open>The report against the specification\<close>














text \<open>In a reachable state every product has exactly one inventory row, so its quantity
  on hand is that row's.\<close>

lemma reachable_one_inventory_row:
  assumes "p \<in> set (products (run cs empty_db))"
  shows "\<exists>i. filter (\<lambda>i. i_productId i = p_id p) (inventory (run cs empty_db)) = [i]"
proof -
  let ?d = "run cs empty_db"
  from consistent_run[OF consistent_empty, of cs]
  have ids: "i_productId ` set (inventory ?d) = p_id ` set (products ?d)"
    and dist: "distinct (map i_productId (inventory ?d))"
    by (simp_all add: consistent_def)
  from assms ids have "\<exists>i\<in>set (inventory ?d). i_productId i = p_id p"
    by (metis image_iff)
  then obtain i where "find (\<lambda>i. i_productId i = p_id p) (inventory ?d) = Some i"
    using find_ex_Some by fastforce
  with filter_one_row[OF dist, of "p_id p"] show ?thesis
    by simp
qed

text \<open>What was assumed of the database above (it is consistent; every inventory row
  belongs to a product) holds in every such state.\<close>

lemma reachable_hypotheses:
  "consistent (run cs empty_db)"
  "\<forall>i\<in>set (inventory (run cs empty_db)).
      \<exists>p\<in>set (products (run cs empty_db)). p_id p = i_productId i"
proof -
  let ?d = "run cs empty_db"
  show c: "consistent ?d"
    by (rule consistent_run[OF consistent_empty])
  then have ids: "i_productId ` set (inventory ?d) = p_id ` set (products ?d)"
    by (simp add: consistent_def)
  then show "\<forall>i\<in>set (inventory ?d). \<exists>p\<in>set (products ?d). p_id p = i_productId i"
    by (metis (no_types, lifting) image_iff)
qed

end
